theory Spec2Isabelle
  imports Complex_Main "HOL-Library.Char_ord" "HOL-Library.List_Lexorder" "HOL-Library.Multiset"
    "HOL-Library.Log_Nat"
begin

section \<open>Values, dictionaries and the object store\<close>

text \<open>
  The three modules \<^verbatim>\<open>area_officer_inspection.py\<close>, \<^verbatim>\<open>work_management.py\<close> and
  \<^verbatim>\<open>zero_muster.py\<close> work on the JSON payload of the dashboard API: a dict whose
  \<^verbatim>\<open>results\<close> entry is a list of dicts, one per district or block.

  A field value is a Python \<^verbatim>\<open>int\<close>, a \<^verbatim>\<open>float\<close>, a \<^verbatim>\<open>str\<close> or \<^verbatim>\<open>None\<close>. A float is a
  binary64 number, and \<open>PFloat q\<close> stands for the double nearest to the rational \<open>q\<close>
  (\<open>to_double q\<close> below). For a float of the payload and for the result of float
  arithmetic \<open>q\<close> is the exact value of the double. For the result of \<^verbatim>\<open>round(x, 2)\<close>, which
  is the double nearest to a number \<open>k/100\<close>, \<open>q\<close> is that number \<open>k/100\<close>. Comparisons read
  \<open>q\<close> itself, since rounding to the nearest double keeps the order of such values;
  arithmetic (\<^verbatim>\<open>+\<close> and \<^verbatim>\<open>statistics.mean\<close>) reads the double. Infinities and NaN, and with
  them a float sum beyond the range of a double, are outside this model.
\<close>

datatype pyval = PInt int | PFloat rat | PStr string | PNone

datatype py_error = KeyError | IndexError | TypeError | StatisticsError | OverflowError

text \<open>A dict with string keys, as an association list; \<open>map_of\<close> reads it.\<close>

type_synonym pydict = "(string \<times> pyval) list"

text \<open>
  The record dicts are mutable objects shared between the payload, the sorted lists and
  the returned output, so a list of records is a list of references into a store.
\<close>

type_synonym ref = nat
type_synonym heap = "ref \<Rightarrow> pydict"

text \<open>\<^verbatim>\<open>d[k]\<close> raises KeyError on a missing key; \<^verbatim>\<open>d.get(k, default)\<close> does not.\<close>

definition getitem :: "pydict \<Rightarrow> string \<Rightarrow> py_error + pyval" where
  "getitem d k = (case map_of d k of None \<Rightarrow> Inl KeyError | Some v \<Rightarrow> Inr v)"

definition get_default :: "pydict \<Rightarrow> string \<Rightarrow> pyval \<Rightarrow> pyval" where
  "get_default d k dflt = (case map_of d k of None \<Rightarrow> dflt | Some v \<Rightarrow> v)"

text \<open>The numeric value of an \<^verbatim>\<open>int\<close> or \<^verbatim>\<open>float\<close>.\<close>

fun num_of :: "pyval \<Rightarrow> rat option" where
  "num_of (PInt i) = Some (of_int i)"
| "num_of (PFloat q) = Some q"
| "num_of (PStr s) = None"
| "num_of PNone = None"

fun str_of :: "pyval \<Rightarrow> string option" where
  "str_of (PStr s) = Some s"
| "str_of v = None"

fun is_int :: "pyval \<Rightarrow> bool" where
  "is_int (PInt i) = True"
| "is_int v = False"

section \<open>Numeric normalization\<close>

text \<open>
  \<^verbatim>\<open>round(value, 2)\<close> on a float rounds to the nearest multiple of 0.01, a value exactly
  half way going to the even neighbour.
\<close>

definition round_half_even :: "rat \<Rightarrow> int" where
  "round_half_even y =
     (let f = \<lfloor>y\<rfloor>; d = y - of_int f
      in if d < 1 / 2 then f
         else if 1 / 2 < d then f + 1
         else if even f then f else f + 1)"

definition round2 :: "rat \<Rightarrow> rat" where
  "round2 q = of_int (round_half_even (q * 100)) / 100"

text \<open>
  \<^verbatim>\<open>if isinstance(value, float): district[key] = round(value, 2)\<close>: only floats change.
\<close>

fun format_value :: "pyval \<Rightarrow> pyval" where
  "format_value (PFloat q) = PFloat (round2 q)"
| "format_value v = v"

text \<open>\<^verbatim>\<open>for key, value in district.items(): ...\<close>\<close>

definition format_dict :: "pydict \<Rightarrow> pydict" where
  "format_dict d = map (\<lambda>(k, v). (k, format_value v)) d"

text \<open>
  \<^verbatim>\<open>for district in data['results']: ...\<close>: every dict of the list is overwritten in the
  store, in list order.
\<close>

fun format_results :: "ref list \<Rightarrow> heap \<Rightarrow> heap" where
  "format_results [] h = h"
| "format_results (r # rs) h = format_results rs (h(r := format_dict (h r)))"

section \<open>Binary floating point\<close>

text \<open>
  \<open>to_double q\<close> is the double nearest to \<open>q\<close>, a value half way between two doubles
  going to the one with the even significand: \<open>expo q\<close> is the binary exponent of \<open>q\<close>
  (\<open>2 ^ expo q \<le> |q| < 2 ^ (expo q + 1)\<close>), a double has 53 significant bits, and below
  \<open>2 ^ -1022\<close> the doubles are the multiples of \<open>2 ^ -1074\<close>. This is the value of
  \<^verbatim>\<open>float(Fraction(q))\<close> and of float arithmetic on exact operands.
\<close>

definition pow2 :: "int \<Rightarrow> rat" where
  "pow2 e = 2 powi e"

definition expo :: "rat \<Rightarrow> int" where
  "expo q =
     (let (a, b) = quotient_of q; e0 = bitlen \<bar>a\<bar> - bitlen b
      in if pow2 e0 \<le> \<bar>q\<bar> then e0 else e0 - 1)"

definition to_double :: "rat \<Rightarrow> rat" where
  "to_double q =
     (if q = 0 then 0
      else let u = pow2 (max (expo q) (- 1022) - 52)
           in of_int (round_half_even (q / u)) * u)"

text \<open>
  The number that arithmetic reads from a value: an int is exact, a float is the double
  it stands for.
\<close>

fun float_value :: "pyval \<Rightarrow> rat" where
  "float_value (PInt i) = of_int i"
| "float_value (PFloat q) = to_double q"
| "float_value v = 0"

section \<open>The Python operations the aggregators use\<close>

text \<open>Failure is a value: \<open>Inl e\<close> is the exception \<open>e\<close> raised, \<open>Inr v\<close> the result.\<close>

definition bindE :: "py_error + 'a \<Rightarrow> ('a \<Rightarrow> py_error + 'b) \<Rightarrow> py_error + 'b" where
  "bindE m f = (case m of Inl e \<Rightarrow> Inl e | Inr v \<Rightarrow> f v)"

definition num_key :: "pyval \<Rightarrow> rat" where
  "num_key v = (case num_of v of Some q \<Rightarrow> q | None \<Rightarrow> 0)"

definition str_key :: "pyval \<Rightarrow> string" where
  "str_key v = (case str_of v of Some s \<Rightarrow> s | None \<Rightarrow> [])"

definition is_num :: "pyval \<Rightarrow> bool" where
  "is_num v = (num_of v \<noteq> None)"

definition is_str :: "pyval \<Rightarrow> bool" where
  "is_str v = (str_of v \<noteq> None)"

text \<open>\<^verbatim>\<open>a == b\<close> never raises; numbers compare by value, so \<^verbatim>\<open>6 == 6.0\<close>.\<close>

definition py_eq :: "pyval \<Rightarrow> pyval \<Rightarrow> bool" where
  "py_eq a b = (if is_num a \<and> is_num b then num_key a = num_key b else a = b)"

text \<open>
  \<^verbatim>\<open>a + b\<close>: ints add exactly; with a float, an int operand is first converted to a
  double and the sum is the double nearest to the exact sum of the two doubles; strings
  concatenate; anything else is a TypeError.
\<close>

fun py_add :: "pyval \<Rightarrow> pyval \<Rightarrow> py_error + pyval" where
  "py_add (PInt a) (PInt b) = Inr (PInt (a + b))"
| "py_add (PInt a) (PFloat b) = Inr (PFloat (to_double (to_double (of_int a) + to_double b)))"
| "py_add (PFloat a) (PInt b) = Inr (PFloat (to_double (to_double a + to_double (of_int b))))"
| "py_add (PFloat a) (PFloat b) = Inr (PFloat (to_double (to_double a + to_double b)))"
| "py_add (PStr a) (PStr b) = Inr (PStr (a @ b))"
| "py_add a b = Inl TypeError"

text \<open>\<^verbatim>\<open>a < b\<close>: numbers by value, strings lexicographically, anything else a TypeError.\<close>

definition py_lt :: "pyval \<Rightarrow> pyval \<Rightarrow> py_error + bool" where
  "py_lt a b =
     (if is_num a \<and> is_num b then Inr (num_key a < num_key b)
      else if is_str a \<and> is_str b then Inr (str_key a < str_key b)
      else Inl TypeError)"

text \<open>\<^verbatim>\<open>round(v, 2)\<close>: an int is returned as it is, a float is rounded.\<close>

fun py_round2 :: "pyval \<Rightarrow> py_error + pyval" where
  "py_round2 (PInt i) = Inr (PInt i)"
| "py_round2 (PFloat q) = Inr (PFloat (round2 q))"
| "py_round2 v = Inl TypeError"

text \<open>
  \<^verbatim>\<open>statistics.mean(vs)\<close>: StatisticsError on an empty list, TypeError on a value that is
  not a number. The values are summed as exact fractions and the sum is divided by the
  count. The result is an int when every value is an int and the mean is whole;
  otherwise it is the double nearest to the exact mean, and an OverflowError when that
  is beyond the range of a double.
\<close>

definition statistics_mean :: "pyval list \<Rightarrow> py_error + pyval" where
  "statistics_mean vs =
     (if vs = [] then Inl StatisticsError
      else if list_all is_num vs
      then (let q = sum_list (map float_value vs) / of_nat (length vs)
            in if list_all is_int vs \<and> of_int \<lfloor>q\<rfloor> = q then Inr (PInt \<lfloor>q\<rfloor>)
               else if pow2 1024 \<le> \<bar>to_double q\<bar> then Inl OverflowError
               else Inr (PFloat (to_double q)))
      else Inl TypeError)"

text \<open>
  \<^verbatim>\<open>sorted(xs, key=..., reverse=...)\<close> is a stable sort that only uses \<^verbatim>\<open><\<close> on the keys.
  With \<^verbatim>\<open>reverse=True\<close> CPython reverses the list, sorts it stably in ascending order and
  reverses it again, so equal keys keep their input order in both directions.
  A list of fewer than two elements is returned without any comparison. Otherwise every
  element is compared with another one, and any comparison sort has to compare across
  two groups of keys that are not comparable with each other: the sort succeeds exactly
  when all keys are numbers or all keys are strings, and raises TypeError if not.
\<close>

definition stable_sort :: "('a \<Rightarrow> 'k::linorder) \<Rightarrow> bool \<Rightarrow> 'a list \<Rightarrow> 'a list" where
  "stable_sort k reverse xs =
     (if reverse then rev (sort_key k (rev xs)) else sort_key k xs)"

definition py_sorted :: "('a \<Rightarrow> pyval) \<Rightarrow> bool \<Rightarrow> 'a list \<Rightarrow> py_error + 'a list" where
  "py_sorted key reverse xs =
     (if list_all (\<lambda>x. is_num (key x)) xs
      then Inr (stable_sort (\<lambda>x. num_key (key x)) reverse xs)
      else if list_all (\<lambda>x. is_str (key x)) xs
      then Inr (stable_sort (\<lambda>x. str_key (key x)) reverse xs)
      else if length xs \<le> 1 then Inr xs
      else Inl TypeError)"

text \<open>\<^verbatim>\<open>xs[0]\<close> and \<^verbatim>\<open>xs[-1]\<close> raise IndexError on an empty list.\<close>

definition first_item :: "'a list \<Rightarrow> py_error + 'a" where
  "first_item xs = (case xs of [] \<Rightarrow> Inl IndexError | x # _ \<Rightarrow> Inr x)"

definition last_item :: "'a list \<Rightarrow> py_error + 'a" where
  "last_item xs = (if xs = [] then Inl IndexError else Inr (last xs))"

text \<open>
  A dict key: \<^verbatim>\<open>1\<close> and \<^verbatim>\<open>1.0\<close> are the same key, so a whole float is stored under its
  int.
\<close>

fun dict_key :: "pyval \<Rightarrow> pyval" where
  "dict_key (PFloat q) = (if of_int \<lfloor>q\<rfloor> = q then PInt \<lfloor>q\<rfloor> else PFloat q)"
| "dict_key v = v"

section \<open>Ranking\<close>

text \<open>
  The tie-break of the inspection module, on the sorted list \<open>s\<close>:
  \<^verbatim>\<open>
  for i in range(len(s) - 1):
      if s[i]['total_visit_marks'] == s[i+1]['total_visit_marks']:
          total_visits_i = s[i]['dpc_ws_visited'] + s[i]['adpc_ws_visited']
          total_visits_i_plus_1 = s[i+1]['dpc_ws_visited'] + s[i+1]['adpc_ws_visited']
          if total_visits_i < total_visits_i_plus_1:
              s[i], s[i+1] = s[i+1], s[i]
  \<close>
  \<open>total_visits\<close> is the secondary metric of one record, \<open>tie_swap\<close> the test of one
  iteration on the records at \<open>i\<close> and \<open>i+1\<close>, with the exceptions in evaluation order.
\<close>

definition total_visits :: "pydict \<Rightarrow> py_error + pyval" where
  "total_visits d =
     bindE (getitem d ''dpc_ws_visited'') (\<lambda>x.
     bindE (getitem d ''adpc_ws_visited'') (\<lambda>y. py_add x y))"

definition tie_swap :: "pydict \<Rightarrow> pydict \<Rightarrow> py_error + bool" where
  "tie_swap a b =
     bindE (getitem a ''total_visit_marks'') (\<lambda>ta.
     bindE (getitem b ''total_visit_marks'') (\<lambda>tb.
       if py_eq ta tb
       then bindE (total_visits a) (\<lambda>va. bindE (total_visits b) (\<lambda>vb. py_lt va vb))
       else Inr False))"

text \<open>
  The loop walks the list once from the left. After iteration \<open>i\<close> the element at \<open>i\<close> is
  final, and the element now at \<open>i+1\<close> (the old \<open>s[i]\<close> after a swap) is the one
  iteration \<open>i+1\<close> compares with \<open>s[i+2]\<close>.
\<close>

fun tie_pass :: "heap \<Rightarrow> ref list \<Rightarrow> py_error + ref list" where
  "tie_pass h (a # b # rest) =
     (case tie_swap (h a) (h b) of
        Inl e \<Rightarrow> Inl e
      | Inr sw \<Rightarrow>
          if sw
          then (case tie_pass h (a # rest) of Inl e \<Rightarrow> Inl e | Inr ys \<Rightarrow> Inr (b # ys))
          else (case tie_pass h (b # rest) of Inl e \<Rightarrow> Inl e | Inr ys \<Rightarrow> Inr (a # ys)))"
| "tie_pass h xs = Inr xs"

text \<open>
  \<^verbatim>\<open>for i, district in enumerate(sorted_districts):
      district_ranks[district['group_name']] = i + 1\<close>
  \<open>assign_ranks h i ds m\<close> runs the loop from index \<open>i\<close> on the remaining records \<open>ds\<close>
  with the dict \<open>m\<close> built so far; a later record overwrites an equal name.
\<close>

type_synonym ranks = "pyval \<rightharpoonup> nat"

fun assign_ranks :: "heap \<Rightarrow> nat \<Rightarrow> ref list \<Rightarrow> ranks \<Rightarrow> py_error + ranks" where
  "assign_ranks h i [] m = Inr m"
| "assign_ranks h i (d # ds) m =
     (case getitem (h d) ''group_name'' of
        Inl e \<Rightarrow> Inl e
      | Inr n \<Rightarrow> assign_ranks h (Suc i) ds (m(dict_key n \<mapsto> Suc i)))"

text \<open>
  \<^verbatim>\<open>round(statistics.mean([d.get(field, 0) for d in data['results']]), 2)\<close>
\<close>

definition avg_field :: "heap \<Rightarrow> ref list \<Rightarrow> string \<Rightarrow> py_error + pyval" where
  "avg_field h rs field =
     bindE (statistics_mean (map (\<lambda>r. get_default (h r) field (PInt 0)) rs)) py_round2"

section \<open>Payloads and results\<close>

text \<open>
  The payload is the dict the API returned. Only these keys are read; a key that is
  absent is \<open>None\<close> here. The empty dict is the payload with no key at all. A fetch that
  failed hands the aggregators Python's \<^verbatim>\<open>None\<close>, the payload option \<open>None\<close>.
\<close>

record payload =
  results :: "ref list option"
  range_start :: "pyval option"
  range_end :: "pyval option"
  state_avg_prev :: "pyval option"
  state_avg_curr :: "pyval option"

text \<open>\<^verbatim>\<open>data.get(key, default)\<close> on the payload.\<close>

definition payload_get :: "pyval option \<Rightarrow> pyval \<Rightarrow> pyval" where
  "payload_get field dflt = (case field of None \<Rightarrow> dflt | Some v \<Rightarrow> v)"

text \<open>
  The dicts the state aggregators return. \<open>top_district\<close> and \<open>bottom_district\<close> are the
  record objects themselves. The inspection module adds \<open>date_range\<close> (start, end).
\<close>

record state_out =
  top_district :: ref
  bottom_district :: ref
  state_averages :: pydict
  district_ranks :: ranks
  total_districts :: nat

record insp_state_out = state_out +
  date_range :: "pyval \<times> pyval"

text \<open>
  The dicts the district aggregators return: the sorted block objects and the summary.
  The inspection summary has a nested \<open>date_range\<close> dict, kept here as a field of its own.
\<close>

record district_out =
  blocks :: "ref list"
  district_summary :: pydict

record insp_district_out = district_out +
  summary_date_range :: "pyval \<times> pyval"

text \<open>
  An aggregator returns a dict, returns \<^verbatim>\<open>None\<close> or raises, and leaves the store changed:
  its value is the pair of \<open>Inl\<close> exception, \<open>Inr None\<close> or \<open>Inr (Some dict)\<close>, and the
  store after the call (after the formatting loop also when it raises later).
\<close>

type_synonym 'a outcome = "(py_error + 'a option) \<times> heap"

section \<open>State aggregators\<close>

text \<open>
  \<^verbatim>\<open>process_state_inspection_data(data)\<close>. The logging calls read only keys that an
  earlier statement has read already, so they raise nothing new and are left out.
\<close>

definition process_state_inspection_data :: "heap \<Rightarrow> payload option \<Rightarrow> insp_state_out outcome" where
  "process_state_inspection_data h data =
     (case data of
        None \<Rightarrow> (Inr None, h)
      | Some d \<Rightarrow>
          (case results d of
             None \<Rightarrow> (Inr None, h)
           | Some rs \<Rightarrow>
               (let h1 = format_results rs h in
                (bindE (py_sorted (\<lambda>r. get_default (h1 r) ''total_visit_marks'' (PInt 0)) True rs) (\<lambda>s0.
                 bindE (tie_pass h1 s0) (\<lambda>sorted_districts.
                 bindE (assign_ranks h1 0 sorted_districts Map.empty) (\<lambda>ranks.
                 bindE (first_item sorted_districts) (\<lambda>top.
                 bindE (last_item sorted_districts) (\<lambda>bottom.
                 bindE (avg_field h1 rs ''dpc_ws_visited'') (\<lambda>avg_dpc_ws_visited.
                 bindE (avg_field h1 rs ''adpc_ws_visited'') (\<lambda>avg_adpc_ws_visited.
                 bindE (avg_field h1 rs ''dpc_marks'') (\<lambda>avg_dpc_marks.
                 bindE (avg_field h1 rs ''adpc_marks'') (\<lambda>avg_adpc_marks.
                 bindE (avg_field h1 rs ''total_visit_marks'') (\<lambda>avg_total_marks.
                 Inr (Some \<lparr>top_district = top, bottom_district = bottom,
                   state_averages =
                     [(''dpc_ws_visited'', avg_dpc_ws_visited),
                      (''adpc_ws_visited'', avg_adpc_ws_visited),
                      (''dpc_marks'', avg_dpc_marks),
                      (''adpc_marks'', avg_adpc_marks),
                      (''total_marks'', avg_total_marks)],
                   district_ranks = ranks,
                   total_districts = length sorted_districts,
                   date_range = (payload_get (range_start d) (PStr []),
                                 payload_get (range_end d) (PStr []))\<rparr>))))))))))),
                 h1))))"

text \<open>\<^verbatim>\<open>process_state_work_data(data)\<close>: descending by \<open>work_management_total\<close>, no tie-break.\<close>

definition process_state_work_data :: "heap \<Rightarrow> payload option \<Rightarrow> state_out outcome" where
  "process_state_work_data h data =
     (case data of
        None \<Rightarrow> (Inr None, h)
      | Some d \<Rightarrow>
          (case results d of
             None \<Rightarrow> (Inr None, h)
           | Some rs \<Rightarrow>
               (let h1 = format_results rs h in
                (bindE (py_round2 (payload_get (state_avg_prev d) (PInt 0))) (\<lambda>avg_prev.
                 bindE (py_round2 (payload_get (state_avg_curr d) (PInt 0))) (\<lambda>avg_curr.
                 bindE (py_sorted (\<lambda>r. get_default (h1 r) ''work_management_total'' (PInt 0)) True rs) (\<lambda>sorted_districts.
                 bindE (assign_ranks h1 0 sorted_districts Map.empty) (\<lambda>ranks.
                 bindE (first_item sorted_districts) (\<lambda>top.
                 bindE (last_item sorted_districts) (\<lambda>bottom.
                 bindE (avg_field h1 rs ''prev_completion'') (\<lambda>avg_prev_completion.
                 bindE (avg_field h1 rs ''curr_completion'') (\<lambda>avg_curr_completion.
                 bindE (avg_field h1 rs ''marks_prev'') (\<lambda>avg_marks_prev.
                 bindE (avg_field h1 rs ''marks_curr'') (\<lambda>avg_marks_curr.
                 bindE (avg_field h1 rs ''work_management_total'') (\<lambda>avg_total_marks.
                 Inr (Some \<lparr>top_district = top, bottom_district = bottom,
                   state_averages =
                     [(''prev_completion'', avg_prev_completion),
                      (''curr_completion'', avg_curr_completion),
                      (''marks_prev'', avg_marks_prev),
                      (''marks_curr'', avg_marks_curr),
                      (''total_marks'', avg_total_marks),
                      (''state_avg_prev'', avg_prev),
                      (''state_avg_curr'', avg_curr)],
                   district_ranks = ranks,
                   total_districts = length sorted_districts\<rparr>)))))))))))),
                 h1))))"

text \<open>
  \<^verbatim>\<open>process_state_zero_muster_data(data)\<close>: ascending by \<open>zero_attendance_percentage\<close>, a
  record without the field sorted as 100.
\<close>

definition process_state_zero_muster_data :: "heap \<Rightarrow> payload option \<Rightarrow> state_out outcome" where
  "process_state_zero_muster_data h data =
     (case data of
        None \<Rightarrow> (Inr None, h)
      | Some d \<Rightarrow>
          (case results d of
             None \<Rightarrow> (Inr None, h)
           | Some rs \<Rightarrow>
               (let h1 = format_results rs h in
                (bindE (py_sorted (\<lambda>r. get_default (h1 r) ''zero_attendance_percentage'' (PInt 100)) False rs) (\<lambda>sorted_districts.
                 bindE (assign_ranks h1 0 sorted_districts Map.empty) (\<lambda>ranks.
                 bindE (first_item sorted_districts) (\<lambda>top.
                 bindE (last_item sorted_districts) (\<lambda>bottom.
                 bindE (avg_field h1 rs ''total_muster_issued'') (\<lambda>avg_total_muster_issued.
                 bindE (avg_field h1 rs ''total_zero_attendance'') (\<lambda>avg_total_zero_attendance.
                 bindE (avg_field h1 rs ''zero_attendance_percentage'') (\<lambda>avg_zero_attendance_percentage.
                 bindE (avg_field h1 rs ''zero_muster_marks'') (\<lambda>avg_zero_muster_marks.
                 Inr (Some \<lparr>top_district = top, bottom_district = bottom,
                   state_averages =
                     [(''total_muster_issued'', avg_total_muster_issued),
                      (''total_zero_attendance'', avg_total_zero_attendance),
                      (''zero_attendance_percentage'', avg_zero_attendance_percentage),
                      (''zero_muster_marks'', avg_zero_muster_marks)],
                   district_ranks = ranks,
                   total_districts = length sorted_districts\<rparr>))))))))),
                 h1))))"

section \<open>District aggregators\<close>

text \<open>
  \<^verbatim>\<open>sorted_blocks[0] if sorted_blocks else None\<close> and \<^verbatim>\<open>sorted_blocks[-1] if ... else None\<close>.
\<close>

definition first_or_none :: "ref list \<Rightarrow> ref option" where
  "first_or_none xs = (case xs of [] \<Rightarrow> None | x # _ \<Rightarrow> Some x)"

definition last_or_none :: "ref list \<Rightarrow> ref option" where
  "last_or_none xs = (if xs = [] then None else Some (last xs))"

text \<open>The truth value of \<^verbatim>\<open>None\<close> or a dict: a dict is true when it has a key.\<close>

definition truthy :: "heap \<Rightarrow> ref option \<Rightarrow> bool" where
  "truthy h b = (case b of None \<Rightarrow> False | Some r \<Rightarrow> h r \<noteq> [])"

text \<open>\<^verbatim>\<open>block['group_name'] if block else None\<close> and \<^verbatim>\<open>block.get(field, 0) if block else 0\<close>.\<close>

definition name_or_none :: "heap \<Rightarrow> ref option \<Rightarrow> py_error + pyval" where
  "name_or_none h b =
     (case b of None \<Rightarrow> Inr PNone
      | Some r \<Rightarrow> if h r \<noteq> [] then getitem (h r) ''group_name'' else Inr PNone)"

definition value_or_zero :: "heap \<Rightarrow> ref option \<Rightarrow> string \<Rightarrow> pyval" where
  "value_or_zero h b field =
     (case b of None \<Rightarrow> PInt 0
      | Some r \<Rightarrow> if h r \<noteq> [] then get_default (h r) field (PInt 0) else PInt 0)"

text \<open>
  The guarded logging of the inspection and zero-muster modules reads \<open>group_name\<close> of
  both blocks: \<^verbatim>\<open>if highest_block and lowest_block: logger.info(f"...{highest_block['group_name']}...")\<close>.
\<close>

definition log_blocks :: "heap \<Rightarrow> ref option \<Rightarrow> ref option \<Rightarrow> py_error + unit" where
  "log_blocks h hi lo =
     (case (hi, lo) of
        (Some a, Some b) \<Rightarrow>
          if truthy h hi \<and> truthy h lo
          then bindE (getitem (h a) ''group_name'') (\<lambda>_.
               bindE (getitem (h b) ''group_name'') (\<lambda>_. Inr ()))
          else Inr ()
      | _ \<Rightarrow> Inr ())"

text \<open>\<^verbatim>\<open>process_district_inspection_data(data)\<close>\<close>

definition process_district_inspection_data :: "heap \<Rightarrow> payload option \<Rightarrow> insp_district_out outcome" where
  "process_district_inspection_data h data =
     (case data of
        None \<Rightarrow> (Inr None, h)
      | Some d \<Rightarrow>
          (case results d of
             None \<Rightarrow> (Inr None, h)
           | Some rs \<Rightarrow>
               (let h1 = format_results rs h in
                (bindE (py_sorted (\<lambda>r. get_default (h1 r) ''total_visit_marks'' (PInt 0)) True rs) (\<lambda>s0.
                 bindE (tie_pass h1 s0) (\<lambda>sorted_blocks.
                 bindE (avg_field h1 rs ''dpc_ws_visited'') (\<lambda>avg_dpc_ws_visited.
                 bindE (avg_field h1 rs ''adpc_ws_visited'') (\<lambda>avg_adpc_ws_visited.
                 bindE (avg_field h1 rs ''dpc_marks'') (\<lambda>avg_dpc_marks.
                 bindE (avg_field h1 rs ''adpc_marks'') (\<lambda>avg_adpc_marks.
                 bindE (avg_field h1 rs ''total_visit_marks'') (\<lambda>avg_total_marks.
                 let highest_block = first_or_none sorted_blocks;
                     lowest_block = last_or_none sorted_blocks in
                 bindE (log_blocks h1 highest_block lowest_block) (\<lambda>_.
                 bindE (name_or_none h1 highest_block) (\<lambda>highest_name.
                 bindE (name_or_none h1 lowest_block) (\<lambda>lowest_name.
                 Inr (Some \<lparr>blocks = sorted_blocks,
                   district_summary =
                     [(''total_blocks'', PInt (int (length rs))),
                      (''average_dpc_ws_visited'', avg_dpc_ws_visited),
                      (''average_adpc_ws_visited'', avg_adpc_ws_visited),
                      (''average_dpc_marks'', avg_dpc_marks),
                      (''average_adpc_marks'', avg_adpc_marks),
                      (''average_total_marks'', avg_total_marks),
                      (''highest_performing_block'', highest_name),
                      (''highest_total_marks'', value_or_zero h1 highest_block ''total_visit_marks''),
                      (''lowest_performing_block'', lowest_name),
                      (''lowest_total_marks'', value_or_zero h1 lowest_block ''total_visit_marks'')],
                   summary_date_range = (payload_get (range_start d) (PStr []),
                                         payload_get (range_end d) (PStr []))\<rparr>))))))))))),
                 h1))))"

text \<open>
  \<^verbatim>\<open>process_district_work_data(data)\<close>: the best and worst block are read with
  \<^verbatim>\<open>sorted_blocks[0]\<close> and \<^verbatim>\<open>sorted_blocks[-1]\<close>, and their names with
  \<^verbatim>\<open>highest_block['group_name']\<close>, all without a guard.
\<close>

definition process_district_work_data :: "heap \<Rightarrow> payload option \<Rightarrow> district_out outcome" where
  "process_district_work_data h data =
     (case data of
        None \<Rightarrow> (Inr None, h)
      | Some d \<Rightarrow>
          (case results d of
             None \<Rightarrow> (Inr None, h)
           | Some rs \<Rightarrow>
               (let h1 = format_results rs h in
                (bindE (py_round2 (payload_get (state_avg_prev d) (PInt 0))) (\<lambda>avg_prev.
                 bindE (py_round2 (payload_get (state_avg_curr d) (PInt 0))) (\<lambda>avg_curr.
                 bindE (py_sorted (\<lambda>r. get_default (h1 r) ''work_management_total'' (PInt 0)) True rs) (\<lambda>sorted_blocks.
                 bindE (avg_field h1 rs ''prev_completion'') (\<lambda>avg_prev_completion.
                 bindE (avg_field h1 rs ''curr_completion'') (\<lambda>avg_curr_completion.
                 bindE (avg_field h1 rs ''marks_prev'') (\<lambda>avg_marks_prev.
                 bindE (avg_field h1 rs ''marks_curr'') (\<lambda>avg_marks_curr.
                 bindE (avg_field h1 rs ''work_management_total'') (\<lambda>avg_total_marks.
                 bindE (first_item sorted_blocks) (\<lambda>highest_block.
                 bindE (last_item sorted_blocks) (\<lambda>lowest_block.
                 bindE (getitem (h1 highest_block) ''group_name'') (\<lambda>highest_name.
                 bindE (getitem (h1 lowest_block) ''group_name'') (\<lambda>lowest_name.
                 Inr (Some \<lparr>blocks = sorted_blocks,
                   district_summary =
                     [(''total_blocks'', PInt (int (length rs))),
                      (''average_prev_completion'', avg_prev_completion),
                      (''average_curr_completion'', avg_curr_completion),
                      (''average_marks_prev'', avg_marks_prev),
                      (''average_marks_curr'', avg_marks_curr),
                      (''average_total_marks'', avg_total_marks),
                      (''state_avg_prev'', avg_prev),
                      (''state_avg_curr'', avg_curr),
                      (''highest_performing_block'', highest_name),
                      (''highest_total_marks'',
                         get_default (h1 highest_block) ''work_management_total'' (PInt 0)),
                      (''lowest_performing_block'', lowest_name),
                      (''lowest_total_marks'',
                         get_default (h1 lowest_block) ''work_management_total'' (PInt 0))]\<rparr>))))))))))))),
                 h1))))"

text \<open>\<^verbatim>\<open>process_district_zero_muster_data(data)\<close>\<close>

definition process_district_zero_muster_data :: "heap \<Rightarrow> payload option \<Rightarrow> district_out outcome" where
  "process_district_zero_muster_data h data =
     (case data of
        None \<Rightarrow> (Inr None, h)
      | Some d \<Rightarrow>
          (case results d of
             None \<Rightarrow> (Inr None, h)
           | Some rs \<Rightarrow>
               (let h1 = format_results rs h in
                (bindE (py_sorted (\<lambda>r. get_default (h1 r) ''zero_attendance_percentage'' (PInt 100)) False rs) (\<lambda>sorted_blocks.
                 bindE (avg_field h1 rs ''total_muster_issued'') (\<lambda>avg_total_muster_issued.
                 bindE (avg_field h1 rs ''total_zero_attendance'') (\<lambda>avg_total_zero_attendance.
                 bindE (avg_field h1 rs ''zero_attendance_percentage'') (\<lambda>avg_zero_attendance_percentage.
                 bindE (avg_field h1 rs ''zero_muster_marks'') (\<lambda>avg_zero_muster_marks.
                 let best_block = first_or_none sorted_blocks;
                     worst_block = last_or_none sorted_blocks in
                 bindE (log_blocks h1 best_block worst_block) (\<lambda>_.
                 bindE (name_or_none h1 best_block) (\<lambda>best_name.
                 bindE (name_or_none h1 worst_block) (\<lambda>worst_name.
                 Inr (Some \<lparr>blocks = sorted_blocks,
                   district_summary =
                     [(''total_blocks'', PInt (int (length rs))),
                      (''average_total_muster_issued'', avg_total_muster_issued),
                      (''average_total_zero_attendance'', avg_total_zero_attendance),
                      (''average_zero_attendance_percentage'', avg_zero_attendance_percentage),
                      (''average_zero_muster_marks'', avg_zero_muster_marks),
                      (''best_performing_block'', best_name),
                      (''best_zero_attendance_percentage'',
                         value_or_zero h1 best_block ''zero_attendance_percentage''),
                      (''worst_performing_block'', worst_name),
                      (''worst_zero_attendance_percentage'',
                         value_or_zero h1 worst_block ''zero_attendance_percentage'')]\<rparr>))))))))),
                 h1))))"

section \<open>The orchestrator of the inspection module\<close>

text \<open>
  \<^verbatim>\<open>for d in state_data['results']:
      if d['group_name'] == district: target_district_data = d; break\<close>
\<close>

fun find_district :: "heap \<Rightarrow> ref list \<Rightarrow> pyval \<Rightarrow> py_error + ref option" where
  "find_district h [] district = Inr None"
| "find_district h (d # ds) district =
     (case getitem (h d) ''group_name'' of
        Inl e \<Rightarrow> Inl e
      | Inr n \<Rightarrow> if py_eq n district then Inr (Some d) else find_district h ds district)"

text \<open>
  \<open>main\<close> of \<^verbatim>\<open>area_officer_inspection.py\<close> from the state payload to the dict
  \<^verbatim>\<open>result["district_data"]\<close>. The two payloads are what the two calls of
  \<^verbatim>\<open>get_inspection_data\<close> returned; the narrative request and the output file come after
  and are not part of this model. A payload that passes \<^verbatim>\<open>if not state_data\<close> and has
  no \<open>results\<close> is stopped by the aggregator's \<^verbatim>\<open>None\<close>, so both checks end in \<open>MainNone\<close>.
\<close>

record district_data_out =
  district_name :: string
  state_rank :: "nat option"
  total :: nat
  district_info :: "ref option"
  details :: insp_district_out

datatype main_result = MainNone | MainMessage string | MainDistrictData district_data_out

definition main_inspection ::
  "heap \<Rightarrow> payload option \<Rightarrow> string option \<Rightarrow> payload option \<Rightarrow> (py_error + main_result) \<times> heap" where
  "main_inspection h state_data district district_data =
     (case process_state_inspection_data h state_data of
        (Inl e, h1) \<Rightarrow> (Inl e, h1)
      | (Inr None, h1) \<Rightarrow> (Inr MainNone, h1)
      | (Inr (Some processed_state_data), h1) \<Rightarrow>
          (if district = None \<or> district = Some []
           then (Inr (MainMessage ''District name is required for analysis''), h1)
           else
             (case process_district_inspection_data h1 district_data of
                (Inl e, h2) \<Rightarrow> (Inl e, h2)
              | (Inr None, h2) \<Rightarrow> (Inr MainNone, h2)
              | (Inr (Some processed_district_data), h2) \<Rightarrow>
                  (let name = (case district of None \<Rightarrow> [] | Some n \<Rightarrow> n);
                       rs = (case state_data of None \<Rightarrow> []
                             | Some d \<Rightarrow> (case results d of None \<Rightarrow> [] | Some rs \<Rightarrow> rs))
                   in (bindE (find_district h2 rs (PStr name)) (\<lambda>target.
                       Inr (MainDistrictData
                         \<lparr>district_name = name,
                          state_rank = district_ranks processed_state_data (PStr name),
                          total = total_districts processed_state_data,
                          district_info = target,
                          details = processed_district_data\<rparr>)), h2)))))"

section \<open>Notions of the specification and example inputs\<close>

text \<open>A field that is present and a number, and a field that is a number when present.\<close>

definition field_num :: "pydict \<Rightarrow> string \<Rightarrow> bool" where
  "field_num d k = (case map_of d k of None \<Rightarrow> False | Some v \<Rightarrow> is_num v)"

definition field_num_or_absent :: "pydict \<Rightarrow> string \<Rightarrow> bool" where
  "field_num_or_absent d k = (case map_of d k of None \<Rightarrow> True | Some v \<Rightarrow> is_num v)"

definition has_field :: "pydict \<Rightarrow> string \<Rightarrow> bool" where
  "has_field d k = (map_of d k \<noteq> None)"

text \<open>The payloads \<^verbatim>\<open>{}\<close> and \<^verbatim>\<open>{"results": []}\<close>, and a payload with only \<open>results\<close>.\<close>

definition empty_payload :: payload where
  "empty_payload = \<lparr>results = None, range_start = None, range_end = None,
     state_avg_prev = None, state_avg_curr = None\<rparr>"

definition results_payload :: "ref list \<Rightarrow> payload" where
  "results_payload rs = \<lparr>results = Some rs, range_start = None, range_end = None,
     state_avg_prev = None, state_avg_curr = None\<rparr>"

text \<open>The store in which every object is the empty dict.\<close>

definition empty_heap :: heap where
  "empty_heap = (\<lambda>_. [])"

text \<open>Both visit counts of a record are present and numbers.\<close>

definition visits_ok :: "pydict \<Rightarrow> bool" where
  "visits_ok d = (field_num d ''dpc_ws_visited'' \<and> field_num d ''adpc_ws_visited'')"

text \<open>
  Two districts, the second one without \<open>total_visit_marks\<close>:
  \<^verbatim>\<open>[{"group_name": "A", "total_visit_marks": 6.0, "dpc_ws_visited": 3, "adpc_ws_visited": 2},
    {"group_name": "B", "dpc_ws_visited": 1, "adpc_ws_visited": 1}]\<close>
\<close>

definition missing_marks_heap :: heap where
  "missing_marks_heap = (\<lambda>_. [])
     (0 := [(''group_name'', PStr ''A''), (''total_visit_marks'', PFloat 6),
            (''dpc_ws_visited'', PInt 3), (''adpc_ws_visited'', PInt 2)],
      1 := [(''group_name'', PStr ''B''),
            (''dpc_ws_visited'', PInt 1), (''adpc_ws_visited'', PInt 1)])"

text \<open>
  The scenario of the specification, with marks that have more than two decimals:
  \<^verbatim>\<open>[{"group_name": "A", "total_visit_marks": 6.004, "dpc_ws_visited": 3, "adpc_ws_visited": 2},
    {"group_name": "B", "total_visit_marks": 6.0, "dpc_ws_visited": 1, "adpc_ws_visited": 1},
    {"group_name": "C", "total_visit_marks": 4.126, "dpc_ws_visited": 0, "adpc_ws_visited": 0}]\<close>
\<close>

definition scenario_heap :: heap where
  "scenario_heap = (\<lambda>_. [])
     (0 := [(''group_name'', PStr ''A''), (''total_visit_marks'', PFloat (6004 / 1000)),
            (''dpc_ws_visited'', PInt 3), (''adpc_ws_visited'', PInt 2)],
      1 := [(''group_name'', PStr ''B''), (''total_visit_marks'', PFloat 6),
            (''dpc_ws_visited'', PInt 1), (''adpc_ws_visited'', PInt 1)],
      2 := [(''group_name'', PStr ''C''), (''total_visit_marks'', PFloat (4126 / 1000)),
            (''dpc_ws_visited'', PInt 0), (''adpc_ws_visited'', PInt 0)])"

text \<open>The result an aggregator returned, if it returned one.\<close>

definition returned :: "'a outcome \<Rightarrow> 'a option" where
  "returned oc = (case fst oc of Inl e \<Rightarrow> None | Inr None \<Rightarrow> None | Inr (Some out) \<Rightarrow> Some out)"

text \<open>The key under which the rank of a record is stored in \<open>district_ranks\<close>.\<close>

definition entity_key :: "pydict \<Rightarrow> pyval" where
  "entity_key d = dict_key (get_default d ''group_name'' PNone)"

text \<open>
  The ranks of a name-to-rank dict are a permutation of 1..n, with no gap and no repeat:
  the dict has \<open>n\<close> names and its ranks are exactly \<open>1, ..., n\<close>.
\<close>

definition ranks_permutation :: "ranks \<Rightarrow> nat \<Rightarrow> bool" where
  "ranks_permutation m n = (card (dom m) = n \<and> ran m = {1..n})"

text \<open>The value a sort key reads: the field as a number, with the default of the sort.\<close>

definition metric :: "string \<Rightarrow> int \<Rightarrow> pydict \<Rightarrow> rat" where
  "metric field dflt d = num_key (get_default d field (PInt dflt))"

text \<open>
  Two districts with the same name:
  \<^verbatim>\<open>[{"group_name": "A", "work_management_total": 5},
    {"group_name": "A", "work_management_total": 3}]\<close>
\<close>

definition same_name_heap :: heap where
  "same_name_heap = (\<lambda>_. [])
     (0 := [(''group_name'', PStr ''A''), (''work_management_total'', PInt 5)],
      1 := [(''group_name'', PStr ''A''), (''work_management_total'', PInt 3)])"

text \<open>
  Three districts with the fields of all three modules:
  \<^verbatim>\<open>[{"group_name": "A", "total_visit_marks": 6.0, "dpc_ws_visited": 3, "adpc_ws_visited": 2,
     "work_management_total": 7.5, "zero_attendance_percentage": 1.25},
    {"group_name": "B", "total_visit_marks": 6.0, "dpc_ws_visited": 1, "adpc_ws_visited": 1,
     "work_management_total": 5, "zero_attendance_percentage": 2.5},
    {"group_name": "C", "total_visit_marks": 4.0, "dpc_ws_visited": 0, "adpc_ws_visited": 0,
     "work_management_total": 2, "zero_attendance_percentage": 10}]\<close>
\<close>

definition all_fields_heap :: heap where
  "all_fields_heap = (\<lambda>_. [])
     (0 := [(''group_name'', PStr ''A''), (''total_visit_marks'', PFloat 6),
            (''dpc_ws_visited'', PInt 3), (''adpc_ws_visited'', PInt 2),
            (''work_management_total'', PFloat (15 / 2)),
            (''zero_attendance_percentage'', PFloat (5 / 4))],
      1 := [(''group_name'', PStr ''B''), (''total_visit_marks'', PFloat 6),
            (''dpc_ws_visited'', PInt 1), (''adpc_ws_visited'', PInt 1),
            (''work_management_total'', PInt 5),
            (''zero_attendance_percentage'', PFloat (5 / 2))],
      2 := [(''group_name'', PStr ''C''), (''total_visit_marks'', PFloat 4),
            (''dpc_ws_visited'', PInt 0), (''adpc_ws_visited'', PInt 0),
            (''work_management_total'', PInt 2),
            (''zero_attendance_percentage'', PInt 10)])"

text \<open>
  The arithmetic mean of a field across the records of a collection, as an exact number:
  a record without the field counts as 0, as in \<^verbatim>\<open>d.get(field, 0)\<close>, and a float counts as
  the double it is.
\<close>

definition field_mean :: "heap \<Rightarrow> ref list \<Rightarrow> string \<Rightarrow> rat" where
  "field_mean h rs field =
     sum_list (map (\<lambda>r. float_value (get_default (h r) field (PInt 0))) rs) / of_nat (length rs)"

text \<open>
  \<open>a\<close> is \<open>m\<close> rounded to 2 decimals: \<open>a\<close> is a whole number of hundredths and differs from
  \<open>m\<close> by at most half a hundredth, up to the precision of a double (the mean is a double
  before it is rounded, so it is off \<open>m\<close> by at most \<open>|m| / 2 ^ 53\<close>, and by \<open>2 ^ -1075\<close> near
  0). No rule is fixed for a mean half way between two hundredths.
\<close>

definition rounded_2dp :: "rat \<Rightarrow> rat \<Rightarrow> bool" where
  "rounded_2dp a m =
     (of_int \<lfloor>a * 100\<rfloor> = a * 100
      \<and> \<bar>a - m\<bar> \<le> 1 / 200 + \<bar>m\<bar> * pow2 (- 53) + pow2 (- 1075))"

text \<open>The summary dict has under \<open>key\<close> a number that is \<open>m\<close> rounded to 2 decimals.\<close>

definition average_entry :: "pydict \<Rightarrow> string \<Rightarrow> rat \<Rightarrow> bool" where
  "average_entry summary key m =
     (case map_of summary key of None \<Rightarrow> False | Some a \<Rightarrow> is_num a \<and> rounded_2dp (num_key a) m)"

text \<open>
  Three districts with small marks:
  \<^verbatim>\<open>[{"group_name": "A", "zero_muster_marks": 0.006},
    {"group_name": "B", "zero_muster_marks": 0.006},
    {"group_name": "C", "zero_muster_marks": 0.0}]\<close>
\<close>

definition small_marks_heap :: heap where
  "small_marks_heap = (\<lambda>_. [])
     (0 := [(''group_name'', PStr ''A''), (''zero_muster_marks'', PFloat (6 / 1000))],
      1 := [(''group_name'', PStr ''B''), (''zero_muster_marks'', PFloat (6 / 1000))],
      2 := [(''group_name'', PStr ''C''), (''zero_muster_marks'', PFloat 0)])"

text \<open>
  The averages of each summary: the key in the summary dict and the record field whose
  mean it reports.
\<close>

definition state_inspection_averages :: "(string \<times> string) list" where
  "state_inspection_averages =
     [(''dpc_ws_visited'', ''dpc_ws_visited''), (''adpc_ws_visited'', ''adpc_ws_visited''),
      (''dpc_marks'', ''dpc_marks''), (''adpc_marks'', ''adpc_marks''),
      (''total_marks'', ''total_visit_marks'')]"

definition state_work_averages :: "(string \<times> string) list" where
  "state_work_averages =
     [(''prev_completion'', ''prev_completion''), (''curr_completion'', ''curr_completion''),
      (''marks_prev'', ''marks_prev''), (''marks_curr'', ''marks_curr''),
      (''total_marks'', ''work_management_total'')]"

definition state_zero_muster_averages :: "(string \<times> string) list" where
  "state_zero_muster_averages =
     [(''total_muster_issued'', ''total_muster_issued''),
      (''total_zero_attendance'', ''total_zero_attendance''),
      (''zero_attendance_percentage'', ''zero_attendance_percentage''),
      (''zero_muster_marks'', ''zero_muster_marks'')]"

definition district_inspection_averages :: "(string \<times> string) list" where
  "district_inspection_averages =
     [(''average_dpc_ws_visited'', ''dpc_ws_visited''),
      (''average_adpc_ws_visited'', ''adpc_ws_visited''),
      (''average_dpc_marks'', ''dpc_marks''), (''average_adpc_marks'', ''adpc_marks''),
      (''average_total_marks'', ''total_visit_marks'')]"

definition district_work_averages :: "(string \<times> string) list" where
  "district_work_averages =
     [(''average_prev_completion'', ''prev_completion''),
      (''average_curr_completion'', ''curr_completion''),
      (''average_marks_prev'', ''marks_prev''), (''average_marks_curr'', ''marks_curr''),
      (''average_total_marks'', ''work_management_total'')]"

definition district_zero_muster_averages :: "(string \<times> string) list" where
  "district_zero_muster_averages =
     [(''average_total_muster_issued'', ''total_muster_issued''),
      (''average_total_zero_attendance'', ''total_zero_attendance''),
      (''average_zero_attendance_percentage'', ''zero_attendance_percentage''),
      (''average_zero_muster_marks'', ''zero_muster_marks'')]"

text \<open>
  Every listed average of a summary is the mean of its field over the records \<open>rs\<close> as
  the store \<open>h\<close> holds them, rounded to 2 decimals.
\<close>

definition averages_ok :: "pydict \<Rightarrow> (string \<times> string) list \<Rightarrow> heap \<Rightarrow> ref list \<Rightarrow> bool" where
  "averages_ok summary pairs h rs =
     list_all (\<lambda>(key, field). average_entry summary key (field_mean h rs field)) pairs"

text \<open>
  The two metrics of the inspection ranking as numbers: the primary metric
  \<open>total_visit_marks\<close> and the secondary metric \<open>dpc_ws_visited + adpc_ws_visited\<close>, a sum
  of ints or, when one of the counts is a float, the float sum (the double nearest to the
  sum of the two counts as doubles). A record is well formed for the inspection ranking
  when the three fields are present and are numbers.
\<close>

definition primary :: "pydict \<Rightarrow> rat" where
  "primary d = metric ''total_visit_marks'' 0 d"


definition inspection_ok :: "pydict \<Rightarrow> bool" where
  "inspection_ok d = (field_num d ''total_visit_marks'' \<and> visits_ok d)"




text \<open>
  One pass of adjacent swaps as a recursion on the list, for a swap test \<open>sw\<close>. It is used
  in the proofs to relate the pass of the code to the pass of the specification.
\<close>

fun bubble :: "('a \<Rightarrow> 'a \<Rightarrow> bool) \<Rightarrow> 'a list \<Rightarrow> 'a list" where
  "bubble sw (a # b # rest) =
     (if sw a b then b # bubble sw (a # rest) else a # bubble sw (b # rest))"
| "bubble sw xs = xs"

text \<open>
  Three districts with equal marks and 1, 2 and 3 visits:
  \<^verbatim>\<open>[{"group_name": "X", "total_visit_marks": 6.0, "dpc_ws_visited": 1, "adpc_ws_visited": 0},
    {"group_name": "Y", "total_visit_marks": 6.0, "dpc_ws_visited": 1, "adpc_ws_visited": 1},
    {"group_name": "Z", "total_visit_marks": 6.0, "dpc_ws_visited": 2, "adpc_ws_visited": 1}]\<close>
\<close>

definition three_tied_heap :: heap where
  "three_tied_heap = (\<lambda>_. [])
     (0 := [(''group_name'', PStr ''X''), (''total_visit_marks'', PFloat 6),
            (''dpc_ws_visited'', PInt 1), (''adpc_ws_visited'', PInt 0)],
      1 := [(''group_name'', PStr ''Y''), (''total_visit_marks'', PFloat 6),
            (''dpc_ws_visited'', PInt 1), (''adpc_ws_visited'', PInt 1)],
      2 := [(''group_name'', PStr ''Z''), (''total_visit_marks'', PFloat 6),
            (''dpc_ws_visited'', PInt 2), (''adpc_ws_visited'', PInt 1)])"

section \<open>Properties of numeric normalization\<close>

lemma round_half_even_of_int: "round_half_even (of_int n) = n"
  by (simp add: round_half_even_def)

lemma round2_idem: "round2 (round2 q) = round2 q"
  by (simp add: round2_def round_half_even_of_int)

lemma format_value_idem: "format_value (format_value v) = format_value v"
  by (cases v) (simp_all add: round2_idem)

lemma format_dict_idem: "format_dict (format_dict d) = format_dict d"
  by (induction d) (auto simp: format_dict_def format_value_idem)

lemma format_results_apply:
  "format_results rs h r = (if r \<in> set rs then format_dict (h r) else h r)"
  by (induction rs arbitrary: h) (auto simp: format_dict_idem)

text \<open>
  Claim C7. Numeric normalization is idempotent: running the formatting loop a second
  time over the same collection leaves the store, and so every record, as the first run
  left it. Integer, string and null fields are never changed.
\<close>

theorem format_results_idempotent:
  "format_results rs (format_results rs h) = format_results rs h"
  by (rule ext) (simp add: format_results_apply format_dict_idem)

section \<open>Basic facts about the operations\<close>

lemma bindE_simps [simp]:
  "bindE (Inl e) f = Inl e" "bindE (Inr v) f = f v"
  by (simp_all add: bindE_def)

lemma py_round2_num: "py_round2 v = (if is_num v then Inr (format_value v) else Inl TypeError)"
  by (cases v) (simp_all add: is_num_def)

lemma py_sorted_Nil [simp]: "py_sorted key reverse [] = Inr []"
  by (simp add: py_sorted_def stable_sort_def)

section \<open>Facts about rounding to a double\<close>

lemma round_half_even_error: "\<bar>of_int (round_half_even y) - y\<bar> \<le> 1 / 2"
  unfolding round_half_even_def Let_def
  by (auto simp: abs_if not_less) linarith+

lemma pow2_pos [simp]: "0 < pow2 e"
  by (simp add: pow2_def zero_less_power_int)

lemma pow2_nonneg [simp]: "0 \<le> pow2 e"
  by (simp add: less_imp_le)

lemma pow2_add: "pow2 (m + n) = pow2 m * pow2 n"
  by (simp add: pow2_def power_int_add)

lemma pow2_diff: "pow2 (m - n) = pow2 m / pow2 n"
  by (simp add: pow2_def power_int_diff)

lemma pow2_half: "1 / 2 * pow2 e = pow2 (e - 1)"
  by (simp add: pow2_def power_int_diff)

text \<open>Powers of two are evaluated by repeated squaring.\<close>

lemma pow2_code [code]:
  "pow2 e =
     (if e < 0 then inverse (pow2 (- e))
      else if e = 0 then 1
      else (let h = pow2 (e div 2) in if even e then h * h else 2 * h * h))"
proof -
  have neg: "pow2 e = inverse (pow2 (- e))"
    by (simp add: pow2_def power_int_minus)
  have zero: "pow2 0 = 1"
    by (simp add: pow2_def)
  have one: "pow2 1 = 2"
    by (simp add: pow2_def)
  have half: "pow2 (e div 2 + e div 2) = pow2 (e div 2) * pow2 (e div 2)"
    by (rule pow2_add)
  have ev: "pow2 e = pow2 (e div 2) * pow2 (e div 2)" if "even e"
  proof -
    from that have "e = e div 2 + e div 2" by presburger
    then have "pow2 e = pow2 (e div 2 + e div 2)" by (rule arg_cong)
    with half show ?thesis by (simp only:)
  qed
  have od: "pow2 e = 2 * pow2 (e div 2) * pow2 (e div 2)" if "odd e"
  proof -
    from that have "e = 1 + (e div 2 + e div 2)" by presburger
    then have "pow2 e = pow2 (1 + (e div 2 + e div 2))" by (rule arg_cong)
    also have "\<dots> = pow2 1 * pow2 (e div 2 + e div 2)" by (rule pow2_add)
    finally show ?thesis by (simp only: one half mult.assoc)
  qed
  show ?thesis
  proof (cases "e < 0")
    case True
    with neg show ?thesis by simp
  next
    case False
    show ?thesis
    proof (cases "e = 0")
      case True
      with zero show ?thesis by simp
    next
      case nz: False
      show ?thesis
      proof (cases "even e")
        case True
        with ev False nz show ?thesis by (simp add: Let_def)
      next
        case odd: False
        with od False nz show ?thesis by (simp add: Let_def)
      qed
    qed
  qed
qed

lemma bitlen_rat_bounds:
  assumes "0 < (x::int)"
  shows "pow2 (bitlen x - 1) \<le> of_int x" and "of_int x < pow2 (bitlen x)"
proof -
  from assms have pos: "1 \<le> bitlen x"
    by (simp add: bitlen_alt_def)
  from bitlen_bounds [OF assms] have "(2::int) ^ nat (bitlen x - 1) \<le> x" "x < 2 ^ nat (bitlen x)"
    by simp_all
  then have "(of_int ((2::int) ^ nat (bitlen x - 1)) :: rat) \<le> of_int x"
    "(of_int x :: rat) < of_int ((2::int) ^ nat (bitlen x))"
    by (simp_all only: of_int_le_iff of_int_less_iff)
  then show "pow2 (bitlen x - 1) \<le> of_int x" and "of_int x < pow2 (bitlen x)"
    using pos by (simp_all add: pow2_def power_int_def)
qed

text \<open>\<open>expo q\<close> is the binary exponent of \<open>q\<close>.\<close>

lemma expo_bounds:
  assumes "q \<noteq> 0"
  shows "pow2 (expo q) \<le> \<bar>q\<bar>" and "\<bar>q\<bar> < pow2 (expo q + 1)"
proof -
  obtain a b where ab: "quotient_of q = (a, b)" by (cases "quotient_of q")
  then have b: "0 < b" and q: "q = of_int a / of_int b"
    by (simp_all add: quotient_of_denom_pos quotient_of_div)
  with assms have a: "0 < \<bar>a\<bar>" by auto
  define e0 where "e0 = bitlen \<bar>a\<bar> - bitlen b"
  have "\<bar>q\<bar> = \<bar>of_int a\<bar> / \<bar>of_int b :: rat\<bar>"
    unfolding q by (rule abs_divide)
  then have absq: "\<bar>q\<bar> = of_int \<bar>a\<bar> / of_int b"
    using b by simp
  have bpos: "(0::rat) < of_int b" using b by simp
  have apos: "(0::rat) < of_int \<bar>a\<bar>" using a by simp
  have lo: "pow2 (e0 - 1) < \<bar>q\<bar>"
  proof -
    have "pow2 (e0 - 1) = pow2 (bitlen \<bar>a\<bar> - 1) / pow2 (bitlen b)"
      by (simp add: e0_def pow2_diff [symmetric] algebra_simps)
    also have "\<dots> \<le> of_int \<bar>a\<bar> / pow2 (bitlen b)"
      using bitlen_rat_bounds(1) [OF a] by (intro divide_right_mono) simp_all
    also have "\<dots> < of_int \<bar>a\<bar> / of_int b"
      using bitlen_rat_bounds(2) [OF b] apos bpos by (intro divide_strict_left_mono) simp_all
    finally show ?thesis by (simp add: absq)
  qed
  have hi: "\<bar>q\<bar> < pow2 (e0 + 1)"
  proof -
    have "\<bar>q\<bar> < pow2 (bitlen \<bar>a\<bar>) / of_int b"
      unfolding absq using bitlen_rat_bounds(2) [OF a] bpos
      by (intro divide_strict_right_mono) simp_all
    also have "\<dots> \<le> pow2 (bitlen \<bar>a\<bar>) / pow2 (bitlen b - 1)"
      using bitlen_rat_bounds(1) [OF b] bpos by (intro divide_left_mono) simp_all
    also have "\<dots> = pow2 (e0 + 1)"
      by (simp add: e0_def pow2_diff [symmetric] algebra_simps)
    finally show ?thesis .
  qed
  have e: "expo q = (if pow2 e0 \<le> \<bar>q\<bar> then e0 else e0 - 1)"
    by (simp add: expo_def ab e0_def Let_def)
  show "pow2 (expo q) \<le> \<bar>q\<bar>"
    using lo by (simp add: e)
  show "\<bar>q\<bar> < pow2 (expo q + 1)"
    using hi by (simp add: e not_le)
qed

text \<open>
  The nearest double is off by at most half a unit in the last place: a relative error of
  \<open>2 ^ -53\<close>, or \<open>2 ^ -1075\<close> in the subnormal range.
\<close>

lemma to_double_error: "\<bar>to_double q - q\<bar> \<le> \<bar>q\<bar> * pow2 (- 53) + pow2 (- 1075)"
proof (cases "q = 0")
  case True
  then show ?thesis by (simp add: to_double_def less_imp_le)
next
  case False
  define u :: rat where "u = pow2 (max (expo q) (- 1022) - 52)"
  have u: "0 < u" by (simp add: u_def)
  have "to_double q - q = (of_int (round_half_even (q / u)) - q / u) * u"
    using u False by (simp add: to_double_def u_def [symmetric] Let_def algebra_simps)
  then have "\<bar>to_double q - q\<bar> = \<bar>of_int (round_half_even (q / u)) - q / u\<bar> * u"
    using u by (simp add: abs_mult)
  also have "\<dots> \<le> 1 / 2 * u"
    using u round_half_even_error [of "q / u"] by (intro mult_right_mono) simp_all
  also have "\<dots> \<le> \<bar>q\<bar> * pow2 (- 53) + pow2 (- 1075)"
  proof (cases "- 1022 \<le> expo q")
    case True
    then have m: "max (expo q) (- 1022) = expo q" by simp
    have "1 / 2 * u = pow2 (expo q - 52 - 1)"
      unfolding u_def m by (rule pow2_half)
    also have "expo q - 52 - 1 = expo q + (- 53)" by simp
    finally have "1 / 2 * u = pow2 (expo q + (- 53))" .
    also have "\<dots> = pow2 (expo q) * pow2 (- 53)"
      by (rule pow2_add)
    also have "\<dots> \<le> \<bar>q\<bar> * pow2 (- 53)"
      using expo_bounds(1) [OF False] by (intro mult_right_mono) (simp_all add: less_imp_le)
    finally show ?thesis
      by (simp add: add_increasing2 less_imp_le)
  next
    case False
    then have m: "max (expo q) (- 1022) = - 1022" by simp
    have "1 / 2 * u = pow2 (- 1022 - 52 - 1)"
      unfolding u_def m by (rule pow2_half)
    also have "(- 1022 - 52 - 1 :: int) = - 1075" by simp
    finally have "1 / 2 * u = pow2 (- 1075)" .
    then show ?thesis by simp
  qed
  finally show ?thesis .
qed

section \<open>Missing and empty input\<close>

text \<open>
  Claim C8. When the payload is \<^verbatim>\<open>None\<close> (the fetch failed), is the empty dict or has no
  \<open>results\<close> key, each of the three state aggregators returns \<^verbatim>\<open>None\<close>: nothing is raised
  and the store is left as it was.
\<close>

theorem state_aggregators_no_data:
  assumes "data = None \<or> (\<exists>d. data = Some d \<and> results d = None)"
  shows "process_state_inspection_data h data = (Inr None, h)
       \<and> process_state_work_data h data = (Inr None, h)
       \<and> process_state_zero_muster_data h data = (Inr None, h)"
  using assms
  by (auto simp: process_state_inspection_data_def process_state_work_data_def
      process_state_zero_muster_data_def)

theorem state_aggregators_no_data_witness:
  "process_state_inspection_data empty_heap (Some empty_payload) = (Inr None, empty_heap)
 \<and> process_state_work_data empty_heap (Some empty_payload) = (Inr None, empty_heap)
 \<and> process_state_zero_muster_data empty_heap (Some empty_payload) = (Inr None, empty_heap)"
  using state_aggregators_no_data [of "Some empty_payload" empty_heap]
  by (simp add: empty_payload_def)

text \<open>
  Claim C5. When \<open>results\<close> is present and empty, no state aggregator returns a result:
  each one raises. In the inspection and zero-muster modules the exception is the
  IndexError of \<^verbatim>\<open>sorted_districts[0]\<close>. In the work-management module it is the same
  IndexError, unless \<open>state_avg_prev\<close> or \<open>state_avg_curr\<close> is not a number, in which case
  \<^verbatim>\<open>round\<close> has raised TypeError before.
\<close>

theorem state_aggregators_empty_results:
  assumes "results d = Some []"
  shows "fst (process_state_inspection_data h (Some d)) = Inl IndexError
       \<and> fst (process_state_zero_muster_data h (Some d)) = Inl IndexError
       \<and> fst (process_state_work_data h (Some d)) =
           (if is_num (payload_get (state_avg_prev d) (PInt 0))
             \<and> is_num (payload_get (state_avg_curr d) (PInt 0))
            then Inl IndexError else Inl TypeError)"
  using assms
  by (simp add: process_state_inspection_data_def process_state_work_data_def
      process_state_zero_muster_data_def first_item_def py_round2_num)

theorem state_aggregators_empty_results_witness:
  "fst (process_state_inspection_data empty_heap (Some (results_payload []))) = Inl IndexError
 \<and> fst (process_state_zero_muster_data empty_heap (Some (results_payload []))) = Inl IndexError
 \<and> fst (process_state_work_data empty_heap (Some (results_payload []))) = Inl IndexError"
  using state_aggregators_empty_results [of "results_payload []" empty_heap]
  by (simp add: results_payload_def payload_get_def is_num_def)

text \<open>
  Claim C4. The specification expects the work-management district aggregator to return, for
  an empty block list, a summary with null best and worst block names. On the payload
  \<^verbatim>\<open>{"results": []}\<close> the function raises instead: \<^verbatim>\<open>statistics.mean([])\<close> raises
  StatisticsError at the first average, before the best and worst block are read.
\<close>

theorem district_work_empty_results_raises:
  "fst (process_district_work_data empty_heap (Some (results_payload []))) = Inl StatisticsError"
  by (simp add: process_district_work_data_def results_payload_def payload_get_def
      avg_field_def statistics_mean_def)

text \<open>
  The same happens in the two sibling modules, whose guards
  \<^verbatim>\<open>sorted_blocks[0] if sorted_blocks else None\<close> come after the averages and are never
  reached with an empty list.
\<close>

lemma district_empty_results_raise:
  assumes "results d = Some []"
  shows "fst (process_district_inspection_data h (Some d)) = Inl StatisticsError"
    and "fst (process_district_zero_muster_data h (Some d)) = Inl StatisticsError"
    and "\<exists>e. fst (process_district_work_data h (Some d)) = Inl e"
  using assms
  by (simp_all add: process_district_inspection_data_def process_district_work_data_def
      process_district_zero_muster_data_def avg_field_def statistics_mean_def py_round2_num)

section \<open>Facts about formatted records\<close>

lemma map_of_format_dict: "map_of (format_dict d) k = map_option format_value (map_of d k)"
  by (induction d) (auto simp: format_dict_def)

lemma is_num_format_value [simp]: "is_num (format_value v) = is_num v"
  by (cases v) (simp_all add: is_num_def)

lemma field_num_format [simp]: "field_num (format_dict d) k = field_num d k"
  by (simp add: field_num_def map_of_format_dict split: option.splits)

lemma field_num_or_absent_format [simp]:
  "field_num_or_absent (format_dict d) k = field_num_or_absent d k"
  by (simp add: field_num_or_absent_def map_of_format_dict split: option.splits)

lemma has_field_format [simp]: "has_field (format_dict d) k = has_field d k"
  by (simp add: has_field_def map_of_format_dict)

lemma format_results_in: "r \<in> set rs \<Longrightarrow> format_results rs h r = format_dict (h r)"
  by (simp add: format_results_apply)

lemma getitem_field_num:
  "field_num d k \<Longrightarrow> \<exists>v. getitem d k = Inr v \<and> is_num v \<and> get_default d k dflt = v"
  by (auto simp: getitem_def field_num_def get_default_def split: option.splits)

lemma is_num_get_default:
  "field_num_or_absent d k \<Longrightarrow> is_num (get_default d k (PInt n))"
  by (simp add: field_num_or_absent_def get_default_def is_num_def split: option.splits)

section \<open>Facts about sorting\<close>

lemma set_stable_sort [simp]: "set (stable_sort k reverse xs) = set xs"
  by (simp add: stable_sort_def)

lemma length_stable_sort [simp]: "length (stable_sort k reverse xs) = length xs"
  by (simp add: stable_sort_def)

lemma mset_stable_sort [simp]: "mset (stable_sort k reverse xs) = mset xs"
  by (simp add: stable_sort_def)

lemma py_sorted_num:
  "list_all (\<lambda>x. is_num (key x)) xs \<Longrightarrow>
   py_sorted key reverse xs = Inr (stable_sort (\<lambda>x. num_key (key x)) reverse xs)"
  by (simp add: py_sorted_def)

section \<open>The tie-break pass and missing fields\<close>

lemma py_add_num:
  "is_num x \<Longrightarrow> is_num y \<Longrightarrow>
   \<exists>z. py_add x y = Inr z \<and> is_num z
     \<and> num_key z = (if is_int x \<and> is_int y then num_key x + num_key y
                    else to_double (to_double (num_key x) + to_double (num_key y)))"
  by (cases x; cases y) (simp_all add: is_num_def num_key_def)

lemma total_visits_num:
  assumes "field_num d ''dpc_ws_visited''" "field_num d ''adpc_ws_visited''"
  shows "\<exists>z. total_visits d = Inr z \<and> is_num z"
proof -
  obtain x where x: "getitem d ''dpc_ws_visited'' = Inr x" "is_num x"
    using getitem_field_num [OF assms(1)] by blast
  obtain y where y: "getitem d ''adpc_ws_visited'' = Inr y" "is_num y"
    using getitem_field_num [OF assms(2)] by blast
  from py_add_num [OF x(2) y(2)] x(1) y(1) show ?thesis
    by (auto simp: total_visits_def)
qed

lemma tie_swap_cases:
  assumes "visits_ok a" "visits_ok b"
  shows "tie_swap a b =
     (if has_field a ''total_visit_marks'' \<and> has_field b ''total_visit_marks''
      then tie_swap a b else Inl KeyError) \<and>
     (has_field a ''total_visit_marks'' \<and> has_field b ''total_visit_marks''
        \<longrightarrow> (\<exists>sw. tie_swap a b = Inr sw))"
proof -
  obtain va where va: "total_visits a = Inr va" "is_num va"
    using total_visits_num assms(1) unfolding visits_ok_def by blast
  obtain vb where vb: "total_visits b = Inr vb" "is_num vb"
    using total_visits_num assms(2) unfolding visits_ok_def by blast
  show ?thesis
    using va vb
    by (auto simp: tie_swap_def py_lt_def getitem_def has_field_def split: option.splits)
qed

lemma tie_pass_KeyError:
  assumes "list_all (\<lambda>r. visits_ok (h r)) xs"
    and "\<not> list_all (\<lambda>r. has_field (h r) ''total_visit_marks'') xs"
    and "2 \<le> length xs"
  shows "tie_pass h xs = Inl KeyError"
  using assms
proof (induction h xs rule: tie_pass.induct)
  case (1 h a b rest)
  show ?case
  proof (cases "has_field (h a) ''total_visit_marks'' \<and> has_field (h b) ''total_visit_marks''")
    case False
    with tie_swap_cases [of "h a" "h b"] "1.prems"(1) show ?thesis
      by (simp split: if_splits)
  next
    case True
    with tie_swap_cases [of "h a" "h b"] "1.prems"(1)
    obtain sw where sw: "tie_swap (h a) (h b) = Inr sw" by auto
    from True "1.prems"(2) have rest: "\<not> list_all (\<lambda>r. has_field (h r) ''total_visit_marks'') rest"
      by simp
    then have len: "rest \<noteq> []" by auto
    show ?thesis
    proof (cases sw)
      case True
      have "tie_pass h (a # rest) = Inl KeyError"
        using "1.IH"(1) [OF sw True] "1.prems"(1) rest len
        by (cases rest) simp_all
      with sw True show ?thesis by simp
    next
      case False
      have "tie_pass h (b # rest) = Inl KeyError"
        using "1.IH"(2) [OF sw False] "1.prems"(1) rest len
        by (cases rest) simp_all
      with sw False show ?thesis by simp
    qed
  qed
qed simp_all

text \<open>
  Claim C9. The sort of the inspection module reads \<open>total_visit_marks\<close> with a default of
  0, the tie-break pass reads it with \<^verbatim>\<open>s[i]['total_visit_marks']\<close>. So when the collection
  has at least two records, one of which has no \<open>total_visit_marks\<close> (the other fields
  being such that nothing else fails: marks that are present are numbers, both visit
  counts are numbers), the sort succeeds and the state and the district aggregator then
  raise KeyError.
\<close>

theorem inspection_missing_marks_KeyError:
  assumes res: "results d = Some rs" and len: "2 \<le> length rs"
    and ok: "list_all (\<lambda>r. field_num_or_absent (h r) ''total_visit_marks'' \<and> visits_ok (h r)) rs"
    and miss: "\<not> list_all (\<lambda>r. has_field (h r) ''total_visit_marks'') rs"
  shows "(\<exists>s. py_sorted (\<lambda>r. get_default (format_results rs h r) ''total_visit_marks'' (PInt 0))
               True rs = Inr s)
       \<and> fst (process_state_inspection_data h (Some d)) = Inl KeyError
       \<and> fst (process_district_inspection_data h (Some d)) = Inl KeyError"
proof -
  define h1 where "h1 = format_results rs h"
  define s0 where
    "s0 = stable_sort (\<lambda>r. num_key (get_default (h1 r) ''total_visit_marks'' (PInt 0))) True rs"
  have h1: "\<And>r. r \<in> set rs \<Longrightarrow> h1 r = format_dict (h r)"
    by (simp add: h1_def format_results_in)
  have keys: "list_all (\<lambda>r. is_num (get_default (h1 r) ''total_visit_marks'' (PInt 0))) rs"
    using ok by (auto simp: list_all_iff h1 intro: is_num_get_default)
  have sorted: "py_sorted (\<lambda>r. get_default (h1 r) ''total_visit_marks'' (PInt 0)) True rs = Inr s0"
    unfolding s0_def by (rule py_sorted_num [OF keys])
  have "list_all (\<lambda>r. visits_ok (h1 r)) s0"
    using ok by (auto simp: list_all_iff s0_def h1 visits_ok_def)
  moreover have "\<not> list_all (\<lambda>r. has_field (h1 r) ''total_visit_marks'') s0"
    using miss by (auto simp: list_all_iff s0_def h1)
  moreover have "2 \<le> length s0"
    using len by (simp add: s0_def)
  ultimately have pass: "tie_pass h1 s0 = Inl KeyError"
    by (rule tie_pass_KeyError)
  have "fst (process_state_inspection_data h (Some d)) = Inl KeyError"
    using res sorted pass
    by (simp add: process_state_inspection_data_def Let_def h1_def [symmetric])
  moreover have "fst (process_district_inspection_data h (Some d)) = Inl KeyError"
    using res sorted pass
    by (simp add: process_district_inspection_data_def Let_def h1_def [symmetric])
  ultimately show ?thesis
    using sorted by (simp add: h1_def)
qed

theorem inspection_missing_marks_KeyError_witness:
  "fst (process_state_inspection_data missing_marks_heap (Some (results_payload [0, 1]))) = Inl KeyError
 \<and> fst (process_district_inspection_data missing_marks_heap (Some (results_payload [0, 1]))) = Inl KeyError"
  using inspection_missing_marks_KeyError [of "results_payload [0, 1]" "[0, 1]" missing_marks_heap]
  by (simp add: results_payload_def missing_marks_heap_def field_num_or_absent_def visits_ok_def
      field_num_def has_field_def is_num_def)

text \<open>A single record without the field raises nothing: the pass has no pair to look at.\<close>

lemma single_record_without_marks_accepted:
  "\<not> isl (fst (process_state_inspection_data missing_marks_heap (Some (results_payload [1]))))"
  by code_simp

section \<open>What a returned result tells about the run\<close>

lemma bindE_eq_Inr: "bindE m f = Inr y \<longleftrightarrow> (\<exists>v. m = Inr v \<and> f v = Inr y)"
  by (cases m) simp_all

lemma process_state_inspection_data_Some:
  assumes "fst (process_state_inspection_data h (Some d)) = Inr (Some out)"
    and "results d = Some rs"
  obtains s0 s a1 a2 a3 a4 a5 where
    "py_sorted (\<lambda>r. get_default (format_results rs h r) ''total_visit_marks'' (PInt 0)) True rs = Inr s0"
    "tie_pass (format_results rs h) s0 = Inr s"
    "assign_ranks (format_results rs h) 0 s Map.empty = Inr (district_ranks out)"
    "first_item s = Inr (top_district out)"
    "last_item s = Inr (bottom_district out)"
    "avg_field (format_results rs h) rs ''dpc_ws_visited'' = Inr a1"
    "avg_field (format_results rs h) rs ''adpc_ws_visited'' = Inr a2"
    "avg_field (format_results rs h) rs ''dpc_marks'' = Inr a3"
    "avg_field (format_results rs h) rs ''adpc_marks'' = Inr a4"
    "avg_field (format_results rs h) rs ''total_visit_marks'' = Inr a5"
    "state_averages out = [(''dpc_ws_visited'', a1), (''adpc_ws_visited'', a2),
       (''dpc_marks'', a3), (''adpc_marks'', a4), (''total_marks'', a5)]"
    "total_districts out = length s"
  using assms
  by (auto simp: process_state_inspection_data_def Let_def bindE_eq_Inr)

lemma process_state_work_data_Some:
  assumes "fst (process_state_work_data h (Some d)) = Inr (Some out)"
    and "results d = Some rs"
  obtains s a1 a2 a3 a4 a5 p c where
    "py_sorted (\<lambda>r. get_default (format_results rs h r) ''work_management_total'' (PInt 0)) True rs = Inr s"
    "assign_ranks (format_results rs h) 0 s Map.empty = Inr (district_ranks out)"
    "first_item s = Inr (top_district out)"
    "last_item s = Inr (bottom_district out)"
    "avg_field (format_results rs h) rs ''prev_completion'' = Inr a1"
    "avg_field (format_results rs h) rs ''curr_completion'' = Inr a2"
    "avg_field (format_results rs h) rs ''marks_prev'' = Inr a3"
    "avg_field (format_results rs h) rs ''marks_curr'' = Inr a4"
    "avg_field (format_results rs h) rs ''work_management_total'' = Inr a5"
    "state_averages out = [(''prev_completion'', a1), (''curr_completion'', a2),
       (''marks_prev'', a3), (''marks_curr'', a4), (''total_marks'', a5),
       (''state_avg_prev'', p), (''state_avg_curr'', c)]"
    "total_districts out = length s"
  using assms
  by (auto simp: process_state_work_data_def Let_def bindE_eq_Inr)

lemma process_state_zero_muster_data_Some:
  assumes "fst (process_state_zero_muster_data h (Some d)) = Inr (Some out)"
    and "results d = Some rs"
  obtains s a1 a2 a3 a4 where
    "py_sorted (\<lambda>r. get_default (format_results rs h r) ''zero_attendance_percentage'' (PInt 100)) False rs = Inr s"
    "assign_ranks (format_results rs h) 0 s Map.empty = Inr (district_ranks out)"
    "first_item s = Inr (top_district out)"
    "last_item s = Inr (bottom_district out)"
    "avg_field (format_results rs h) rs ''total_muster_issued'' = Inr a1"
    "avg_field (format_results rs h) rs ''total_zero_attendance'' = Inr a2"
    "avg_field (format_results rs h) rs ''zero_attendance_percentage'' = Inr a3"
    "avg_field (format_results rs h) rs ''zero_muster_marks'' = Inr a4"
    "state_averages out = [(''total_muster_issued'', a1), (''total_zero_attendance'', a2),
       (''zero_attendance_percentage'', a3), (''zero_muster_marks'', a4)]"
    "total_districts out = length s"
  using assms
  by (auto simp: process_state_zero_muster_data_def Let_def bindE_eq_Inr)

lemma process_district_inspection_data_Some:
  assumes "fst (process_district_inspection_data h (Some d)) = Inr (Some out)"
    and "results d = Some rs"
  obtains s0 a1 a2 a3 a4 a5 where
    "py_sorted (\<lambda>r. get_default (format_results rs h r) ''total_visit_marks'' (PInt 0)) True rs = Inr s0"
    "tie_pass (format_results rs h) s0 = Inr (blocks out)"
    "avg_field (format_results rs h) rs ''dpc_ws_visited'' = Inr a1"
    "avg_field (format_results rs h) rs ''adpc_ws_visited'' = Inr a2"
    "avg_field (format_results rs h) rs ''dpc_marks'' = Inr a3"
    "avg_field (format_results rs h) rs ''adpc_marks'' = Inr a4"
    "avg_field (format_results rs h) rs ''total_visit_marks'' = Inr a5"
    "map_of (district_summary out) ''average_dpc_ws_visited'' = Some a1"
    "map_of (district_summary out) ''average_adpc_ws_visited'' = Some a2"
    "map_of (district_summary out) ''average_dpc_marks'' = Some a3"
    "map_of (district_summary out) ''average_adpc_marks'' = Some a4"
    "map_of (district_summary out) ''average_total_marks'' = Some a5"
  using assms
  by (auto simp: process_district_inspection_data_def Let_def bindE_eq_Inr)

lemma process_district_work_data_Some:
  assumes "fst (process_district_work_data h (Some d)) = Inr (Some out)"
    and "results d = Some rs"
  obtains a1 a2 a3 a4 a5 where
    "py_sorted (\<lambda>r. get_default (format_results rs h r) ''work_management_total'' (PInt 0)) True rs
       = Inr (blocks out)"
    "avg_field (format_results rs h) rs ''prev_completion'' = Inr a1"
    "avg_field (format_results rs h) rs ''curr_completion'' = Inr a2"
    "avg_field (format_results rs h) rs ''marks_prev'' = Inr a3"
    "avg_field (format_results rs h) rs ''marks_curr'' = Inr a4"
    "avg_field (format_results rs h) rs ''work_management_total'' = Inr a5"
    "map_of (district_summary out) ''average_prev_completion'' = Some a1"
    "map_of (district_summary out) ''average_curr_completion'' = Some a2"
    "map_of (district_summary out) ''average_marks_prev'' = Some a3"
    "map_of (district_summary out) ''average_marks_curr'' = Some a4"
    "map_of (district_summary out) ''average_total_marks'' = Some a5"
  using assms
  by (auto simp: process_district_work_data_def Let_def bindE_eq_Inr)

lemma process_district_zero_muster_data_Some:
  assumes "fst (process_district_zero_muster_data h (Some d)) = Inr (Some out)"
    and "results d = Some rs"
  obtains a1 a2 a3 a4 where
    "py_sorted (\<lambda>r. get_default (format_results rs h r) ''zero_attendance_percentage'' (PInt 100)) False rs
       = Inr (blocks out)"
    "avg_field (format_results rs h) rs ''total_muster_issued'' = Inr a1"
    "avg_field (format_results rs h) rs ''total_zero_attendance'' = Inr a2"
    "avg_field (format_results rs h) rs ''zero_attendance_percentage'' = Inr a3"
    "avg_field (format_results rs h) rs ''zero_muster_marks'' = Inr a4"
    "map_of (district_summary out) ''average_total_muster_issued'' = Some a1"
    "map_of (district_summary out) ''average_total_zero_attendance'' = Some a2"
    "map_of (district_summary out) ''average_zero_attendance_percentage'' = Some a3"
    "map_of (district_summary out) ''average_zero_muster_marks'' = Some a4"
  using assms
  by (auto simp: process_district_zero_muster_data_def Let_def bindE_eq_Inr)

lemma snd_process:
  assumes "results d = Some rs"
  shows "snd (process_state_inspection_data h (Some d)) = format_results rs h"
    and "snd (process_state_work_data h (Some d)) = format_results rs h"
    and "snd (process_state_zero_muster_data h (Some d)) = format_results rs h"
    and "snd (process_district_inspection_data h (Some d)) = format_results rs h"
    and "snd (process_district_work_data h (Some d)) = format_results rs h"
    and "snd (process_district_zero_muster_data h (Some d)) = format_results rs h"
  using assms
  by (simp_all add: process_state_inspection_data_def process_state_work_data_def
      process_state_zero_muster_data_def process_district_inspection_data_def
      process_district_work_data_def process_district_zero_muster_data_def Let_def)

lemma py_sorted_mset: "py_sorted key reverse xs = Inr ys \<Longrightarrow> mset ys = mset xs"
  by (auto simp: py_sorted_def split: if_splits)

lemma tie_pass_mset: "tie_pass h xs = Inr ys \<Longrightarrow> mset ys = mset xs"
proof (induction h xs arbitrary: ys rule: tie_pass.induct)
  case (1 h a b rest)
  then show ?case
    by (auto split: sum.splits if_splits)
qed simp_all

lemma first_item_Inr: "first_item xs = Inr x \<Longrightarrow> xs \<noteq> [] \<and> x = hd xs \<and> x \<in> set xs"
  by (cases xs) (simp_all add: first_item_def)

lemma last_item_Inr: "last_item xs = Inr x \<Longrightarrow> xs \<noteq> [] \<and> x = last xs \<and> x \<in> set xs"
  by (auto simp: last_item_def split: if_splits)

lemma find_district_Some: "find_district h rs n = Inr (Some t) \<Longrightarrow> t \<in> set rs"
  by (induction rs) (auto split: sum.splits if_splits)

section \<open>In-place normalization and sharing\<close>

lemma format_results_twice:
  "r \<in> set rs \<Longrightarrow> format_results rs' (format_results rs h) r = format_dict (h r)"
  by (simp add: format_results_apply format_dict_idem)

lemma main_inspection_target:
  assumes res: "results d = Some rs"
    and main: "main_inspection h (Some d) name dd = (Inr (MainDistrictData out), h')"
    and info: "district_info out = Some t"
  shows "t \<in> set rs \<and> h' t = format_dict (h t)"
proof -
  obtain ps where ps: "process_state_inspection_data h (Some d) = (Inr (Some ps), format_results rs h)"
    using main snd_process(1) [OF res, of h]
    by (cases "process_state_inspection_data h (Some d)")
       (auto simp: main_inspection_def split: sum.splits option.splits)
  from main ps obtain pd where
    pd: "process_district_inspection_data (format_results rs h) dd = (Inr (Some pd), h')"
    and find: "bindE (find_district h' rs (PStr (case name of None \<Rightarrow> [] | Some n \<Rightarrow> n))) 
       (\<lambda>target. Inr (MainDistrictData
                         \<lparr>district_name = (case name of None \<Rightarrow> [] | Some n \<Rightarrow> n),
                          state_rank = district_ranks ps (PStr (case name of None \<Rightarrow> [] | Some n \<Rightarrow> n)),
                          total = total_districts ps,
                          district_info = target,
                          details = pd\<rparr>)) = Inr (MainDistrictData out)"
    by (cases "process_district_inspection_data (format_results rs h) dd")
       (auto simp: main_inspection_def res Let_def split: sum.splits option.splits if_splits)
  from find info have "find_district h' rs (PStr (case name of None \<Rightarrow> [] | Some n \<Rightarrow> n)) = Inr (Some t)"
    by (auto simp: bindE_eq_Inr)
  then have t: "t \<in> set rs" by (rule find_district_Some)
  obtain dd' rs' where dd: "dd = Some dd'" "results dd' = Some rs'"
    using pd by (auto simp: process_district_inspection_data_def split: option.splits)
  have "h' = format_results rs' (format_results rs h)"
    using snd_process(4) [OF dd(2), of "format_results rs h"] pd dd(1) by simp
  with t show ?thesis
    by (simp add: format_results_twice)
qed

text \<open>
  Claim C10. Every aggregator, at state and at district level and in all three modules,
  rounds the floats by overwriting the record dicts of the caller: whatever the call then
  returns or raises, the store afterwards holds the rounded dict at every record of
  \<open>results\<close> and is unchanged elsewhere. The records in a returned result are objects of
  the input list, not copies: \<open>top_district\<close> and \<open>bottom_district\<close> are among them and
  \<open>blocks\<close> is a rearrangement of them. So the record that \<open>main\<close> of the inspection
  module looks up in \<^verbatim>\<open>state_data['results']\<close> after both aggregations is an input record
  and holds the rounded values.
\<close>

theorem aggregators_mutate_in_place:
  assumes res: "results d = Some rs"
  shows "snd (process_state_inspection_data h (Some d)) = (\<lambda>r. if r \<in> set rs then format_dict (h r) else h r)
     \<and> snd (process_state_work_data h (Some d)) = (\<lambda>r. if r \<in> set rs then format_dict (h r) else h r)
     \<and> snd (process_state_zero_muster_data h (Some d)) = (\<lambda>r. if r \<in> set rs then format_dict (h r) else h r)
     \<and> snd (process_district_inspection_data h (Some d)) = (\<lambda>r. if r \<in> set rs then format_dict (h r) else h r)
     \<and> snd (process_district_work_data h (Some d)) = (\<lambda>r. if r \<in> set rs then format_dict (h r) else h r)
     \<and> snd (process_district_zero_muster_data h (Some d)) = (\<lambda>r. if r \<in> set rs then format_dict (h r) else h r)
     \<and> (\<forall>out. fst (process_state_inspection_data h (Some d)) = Inr (Some out)
           \<longrightarrow> top_district out \<in> set rs \<and> bottom_district out \<in> set rs)
     \<and> (\<forall>out. fst (process_state_work_data h (Some d)) = Inr (Some out)
           \<longrightarrow> top_district out \<in> set rs \<and> bottom_district out \<in> set rs)
     \<and> (\<forall>out. fst (process_state_zero_muster_data h (Some d)) = Inr (Some out)
           \<longrightarrow> top_district out \<in> set rs \<and> bottom_district out \<in> set rs)
     \<and> (\<forall>out. fst (process_district_inspection_data h (Some d)) = Inr (Some out)
           \<longrightarrow> mset (blocks out) = mset rs)
     \<and> (\<forall>out. fst (process_district_work_data h (Some d)) = Inr (Some out)
           \<longrightarrow> mset (blocks out) = mset rs)
     \<and> (\<forall>out. fst (process_district_zero_muster_data h (Some d)) = Inr (Some out)
           \<longrightarrow> mset (blocks out) = mset rs)
     \<and> (\<forall>name dd out h' t.
           main_inspection h (Some d) name dd = (Inr (MainDistrictData out), h')
           \<and> district_info out = Some t
           \<longrightarrow> t \<in> set rs \<and> h' t = format_dict (h t))"
proof -
  have store: "format_results rs h = (\<lambda>r. if r \<in> set rs then format_dict (h r) else h r)"
    by (rule ext) (simp add: format_results_apply)
  have si: "top_district out \<in> set rs \<and> bottom_district out \<in> set rs"
    if "fst (process_state_inspection_data h (Some d)) = Inr (Some out)" for out
  proof -
    from that res obtain s0 s where
      "py_sorted (\<lambda>r. get_default (format_results rs h r) ''total_visit_marks'' (PInt 0)) True rs = Inr s0"
      "tie_pass (format_results rs h) s0 = Inr s"
      "first_item s = Inr (top_district out)" "last_item s = Inr (bottom_district out)"
      by (rule process_state_inspection_data_Some)
    then show ?thesis
      using py_sorted_mset tie_pass_mset first_item_Inr last_item_Inr
      by (metis set_mset_mset)
  qed
  have sw: "top_district out \<in> set rs \<and> bottom_district out \<in> set rs"
    if "fst (process_state_work_data h (Some d)) = Inr (Some out)" for out
  proof -
    from that res obtain s where
      "py_sorted (\<lambda>r. get_default (format_results rs h r) ''work_management_total'' (PInt 0)) True rs = Inr s"
      "first_item s = Inr (top_district out)" "last_item s = Inr (bottom_district out)"
      by (rule process_state_work_data_Some)
    then show ?thesis
      using py_sorted_mset first_item_Inr last_item_Inr
      by (metis set_mset_mset)
  qed
  have sz: "top_district out \<in> set rs \<and> bottom_district out \<in> set rs"
    if "fst (process_state_zero_muster_data h (Some d)) = Inr (Some out)" for out
  proof -
    from that res obtain s where
      "py_sorted (\<lambda>r. get_default (format_results rs h r) ''zero_attendance_percentage'' (PInt 100)) False rs = Inr s"
      "first_item s = Inr (top_district out)" "last_item s = Inr (bottom_district out)"
      by (rule process_state_zero_muster_data_Some)
    then show ?thesis
      using py_sorted_mset first_item_Inr last_item_Inr
      by (metis set_mset_mset)
  qed
  have di: "mset (blocks out) = mset rs"
    if "fst (process_district_inspection_data h (Some d)) = Inr (Some out)" for out
  proof -
    from that res obtain s0 where
      "py_sorted (\<lambda>r. get_default (format_results rs h r) ''total_visit_marks'' (PInt 0)) True rs = Inr s0"
      "tie_pass (format_results rs h) s0 = Inr (blocks out)"
      by (rule process_district_inspection_data_Some)
    then show ?thesis
      using py_sorted_mset tie_pass_mset by metis
  qed
  have dw: "mset (blocks out) = mset rs"
    if "fst (process_district_work_data h (Some d)) = Inr (Some out)" for out
  proof -
    from that res have
      "py_sorted (\<lambda>r. get_default (format_results rs h r) ''work_management_total'' (PInt 0)) True rs
         = Inr (blocks out)"
      by (rule process_district_work_data_Some)
    then show ?thesis by (rule py_sorted_mset)
  qed
  have dz: "mset (blocks out) = mset rs"
    if "fst (process_district_zero_muster_data h (Some d)) = Inr (Some out)" for out
  proof -
    from that res have
      "py_sorted (\<lambda>r. get_default (format_results rs h r) ''zero_attendance_percentage'' (PInt 100)) False rs
         = Inr (blocks out)"
      by (rule process_district_zero_muster_data_Some)
    then show ?thesis by (rule py_sorted_mset)
  qed
  have m: "t \<in> set rs \<and> h' t = format_dict (h t)"
    if "main_inspection h (Some d) name dd = (Inr (MainDistrictData out), h')"
      "district_info out = Some t" for name dd out h' t
    using main_inspection_target [OF res that] .
  show ?thesis
    unfolding snd_process [OF res] store [symmetric]
    using si sw sz di dw dz m by blast
qed


lemma scenario_formatted:
  "format_dict (scenario_heap 2) =
     [(''group_name'', PStr ''C''), (''total_visit_marks'', PFloat (413 / 100)),
      (''dpc_ws_visited'', PInt 0), (''adpc_ws_visited'', PInt 0)]"
  by code_simp

theorem aggregators_mutate_in_place_witness:
  "snd (process_state_inspection_data scenario_heap (Some (results_payload [0, 1, 2]))) 2 =
     [(''group_name'', PStr ''C''), (''total_visit_marks'', PFloat (413 / 100)),
      (''dpc_ws_visited'', PInt 0), (''adpc_ws_visited'', PInt 0)]
 \<and> snd (process_district_zero_muster_data scenario_heap (Some (results_payload [0, 1, 2]))) 2 =
     [(''group_name'', PStr ''C''), (''total_visit_marks'', PFloat (413 / 100)),
      (''dpc_ws_visited'', PInt 0), (''adpc_ws_visited'', PInt 0)]"
  using aggregators_mutate_in_place [of "results_payload [0, 1, 2]" "[0, 1, 2]" scenario_heap]
    scenario_formatted
  by (simp add: results_payload_def)

section \<open>Facts about ranking\<close>

lemma getitem_entity_key: "getitem d ''group_name'' = Inr n \<Longrightarrow> entity_key d = dict_key n"
  by (auto simp: getitem_def entity_key_def get_default_def split: option.splits)

lemma assign_ranks_frame:
  "assign_ranks h i ds m = Inr m' \<Longrightarrow> k \<notin> (\<lambda>d. entity_key (h d)) ` set ds \<Longrightarrow> m' k = m k"
proof (induction ds arbitrary: i m)
  case Nil
  then show ?case by simp
next
  case (Cons d ds)
  from Cons.prems(1) obtain n where n: "getitem (h d) ''group_name'' = Inr n"
    and rest: "assign_ranks h (Suc i) ds (m(dict_key n \<mapsto> Suc i)) = Inr m'"
    by (auto split: sum.splits)
  from Cons.prems(2) have "k \<noteq> dict_key n" "k \<notin> (\<lambda>d. entity_key (h d)) ` set ds"
    using getitem_entity_key [OF n] by auto
  with Cons.IH [OF rest] show ?case by simp
qed

lemma assign_ranks_later:
  "assign_ranks h i ds m = Inr m' \<Longrightarrow> k \<in> (\<lambda>d. entity_key (h d)) ` set ds \<Longrightarrow>
   \<exists>v. m' k = Some v \<and> i < v"
proof (induction ds arbitrary: i m)
  case Nil
  then show ?case by simp
next
  case (Cons d ds)
  from Cons.prems(1) obtain n where n: "getitem (h d) ''group_name'' = Inr n"
    and rest: "assign_ranks h (Suc i) ds (m(dict_key n \<mapsto> Suc i)) = Inr m'"
    by (auto split: sum.splits)
  show ?case
  proof (cases "k \<in> (\<lambda>d. entity_key (h d)) ` set ds")
    case True
    from Cons.IH [OF rest True] show ?thesis by auto
  next
    case False
    with Cons.prems(2) have "k = dict_key n"
      using getitem_entity_key [OF n] by auto
    with assign_ranks_frame [OF rest False] show ?thesis by simp
  qed
qed


lemma assign_ranks_nth:
  "assign_ranks h i ds m = Inr m' \<Longrightarrow> distinct (map (\<lambda>d. entity_key (h d)) ds) \<Longrightarrow>
   j < length ds \<Longrightarrow> m' (entity_key (h (ds ! j))) = Some (Suc (i + j))"
proof (induction ds arbitrary: i m j)
  case Nil
  then show ?case by simp
next
  case (Cons d ds)
  from Cons.prems(1) obtain n where n: "getitem (h d) ''group_name'' = Inr n"
    and rest: "assign_ranks h (Suc i) ds (m(dict_key n \<mapsto> Suc i)) = Inr m'"
    by (auto split: sum.splits)
  have key: "entity_key (h d) = dict_key n"
    by (rule getitem_entity_key [OF n])
  from Cons.prems(2) have dist: "distinct (map (\<lambda>d. entity_key (h d)) ds)"
    and fresh: "entity_key (h d) \<notin> (\<lambda>d. entity_key (h d)) ` set ds"
    by simp_all
  show ?case
  proof (cases j)
    case 0
    with assign_ranks_frame [OF rest fresh] show ?thesis
      by (simp add: key)
  next
    case (Suc j')
    with Cons.prems(3) have "j' < length ds" by simp
    from Cons.IH [OF rest dist this] Suc show ?thesis by simp
  qed
qed

lemma assign_ranks_permutation:
  assumes run: "assign_ranks h 0 s Map.empty = Inr m"
    and dist: "distinct (map (\<lambda>d. entity_key (h d)) s)"
  shows "ranks_permutation m (length s)"
proof -
  have nth: "\<And>j. j < length s \<Longrightarrow> m (entity_key (h (s ! j))) = Some (Suc j)"
    using assign_ranks_nth [OF run dist] by simp
  have outside: "\<And>k. k \<notin> (\<lambda>d. entity_key (h d)) ` set s \<Longrightarrow> m k = None"
    using assign_ranks_frame [OF run] by simp
  have inside: "\<And>k. k \<in> (\<lambda>d. entity_key (h d)) ` set s \<Longrightarrow> \<exists>v. m k = Some v"
    using assign_ranks_later [OF run] by blast
  have "dom m = (\<lambda>d. entity_key (h d)) ` set s"
  proof (rule set_eqI)
    fix k
    show "k \<in> dom m \<longleftrightarrow> k \<in> (\<lambda>d. entity_key (h d)) ` set s"
      using outside [of k] inside [of k] by (cases "m k") (auto simp: dom_def)
  qed
  moreover have "card (set (map (\<lambda>d. entity_key (h d)) s)) = length s"
    using distinct_card [OF dist] by simp
  ultimately have "card (dom m) = length s"
    by simp
  moreover have "ran m = {1..length s}"
  proof (rule set_eqI)
    fix v
    show "v \<in> ran m \<longleftrightarrow> v \<in> {1..length s}"
    proof
      assume "v \<in> ran m"
      then obtain k where k: "m k = Some v" by (auto simp: ran_def)
      then have "k \<in> (\<lambda>d. entity_key (h d)) ` set s"
        using outside by force
      then obtain j where "j < length s" "k = entity_key (h (s ! j))"
        by (auto simp: in_set_conv_nth)
      with nth [of j] k show "v \<in> {1..length s}" by auto
    next
      assume "v \<in> {1..length s}"
      then obtain j where j: "j < length s" "v = Suc j"
        by (cases v) auto
      with nth [of j] show "v \<in> ran m" by (auto simp: ran_def)
    qed
  qed
  ultimately show ?thesis by (simp add: ranks_permutation_def)
qed

lemma distinct_map_mset:
  "mset s = mset rs \<Longrightarrow> distinct (map f rs) \<Longrightarrow> distinct (map f s)"
proof -
  assume eq: "mset s = mset rs" and dist: "distinct (map f rs)"
  from eq have "mset (map f s) = mset (map f rs)" by simp
  from mset_eq_imp_distinct_iff [OF this] dist show ?thesis by simp
qed

section \<open>Ranks form a permutation\<close>

lemma same_name_ranks:
  "map_option district_ranks
     (returned (process_state_work_data same_name_heap (Some (results_payload [0, 1]))))
   = Some [PStr ''A'' \<mapsto> 2]"
  by (simp add: process_state_work_data_def results_payload_def same_name_heap_def returned_def
      payload_get_def py_sorted_def stable_sort_def get_default_def is_num_def num_key_def
      getitem_def first_item_def last_item_def avg_field_def statistics_mean_def format_dict_def
      Let_def numeral_2_eq_2)

text \<open>
  Claim C2, as stated, fails: the ranks are stored in a dict keyed by \<open>group_name\<close>, so two
  records with the same name share one entry and the later rank overwrites the earlier.
  For two districts both named A the work-management aggregator returns the ranks
  \<^verbatim>\<open>{"A": 2}\<close>, which is not a permutation of 1..2.
\<close>

theorem ranks_same_name_counterexample:
  "map_option district_ranks
     (returned (process_state_work_data same_name_heap (Some (results_payload [0, 1]))))
   = Some [PStr ''A'' \<mapsto> 2]
 \<and> \<not> ranks_permutation [PStr ''A'' \<mapsto> 2] 2"
  using same_name_ranks by (simp add: ranks_permutation_def)

lemma distinct_keys_sorted:
  assumes "distinct (map (\<lambda>r. entity_key (format_dict (h r))) rs)" and "mset s = mset rs"
  shows "distinct (map (\<lambda>r. entity_key (format_results rs h r)) s)" and "length s = length rs"
proof -
  have eq: "map (\<lambda>r. entity_key (format_results rs h r)) rs = map (\<lambda>r. entity_key (format_dict (h r))) rs"
    by (simp add: format_results_in)
  have "distinct (map (\<lambda>r. entity_key (format_results rs h r)) rs)"
    unfolding eq by (rule assms(1))
  with assms(2) show "distinct (map (\<lambda>r. entity_key (format_results rs h r)) s)"
    by (rule distinct_map_mset)
  from assms(2) show "length s = length rs"
    by (rule mset_eq_length)
qed

text \<open>
  Claim C2, amended. When the records of the collection have pairwise distinct names (as
  dict keys, after normalization) and a state aggregator returns a result, \<open>district_ranks\<close>
  has one entry per record and its ranks are exactly 1..N, N the number of records. This
  holds in all three modules.
\<close>

theorem ranks_permutation_distinct_names:
  assumes res: "results d = Some rs"
    and dist: "distinct (map (\<lambda>r. entity_key (format_dict (h r))) rs)"
  shows "(\<forall>out. fst (process_state_inspection_data h (Some d)) = Inr (Some out)
            \<longrightarrow> ranks_permutation (district_ranks out) (length rs))
       \<and> (\<forall>out. fst (process_state_work_data h (Some d)) = Inr (Some out)
            \<longrightarrow> ranks_permutation (district_ranks out) (length rs))
       \<and> (\<forall>out. fst (process_state_zero_muster_data h (Some d)) = Inr (Some out)
            \<longrightarrow> ranks_permutation (district_ranks out) (length rs))"
proof (intro conjI allI impI)
  fix out
  assume "fst (process_state_inspection_data h (Some d)) = Inr (Some out)"
  from this res obtain s0 s where
    s0: "py_sorted (\<lambda>r. get_default (format_results rs h r) ''total_visit_marks'' (PInt 0)) True rs = Inr s0"
    and s: "tie_pass (format_results rs h) s0 = Inr s"
    and ranks: "assign_ranks (format_results rs h) 0 s Map.empty = Inr (district_ranks out)"
    by (rule process_state_inspection_data_Some)
  have "mset s = mset rs"
    using py_sorted_mset [OF s0] tie_pass_mset [OF s] by simp
  from distinct_keys_sorted [OF dist this] assign_ranks_permutation [OF ranks]
  show "ranks_permutation (district_ranks out) (length rs)" by simp
next
  fix out
  assume "fst (process_state_work_data h (Some d)) = Inr (Some out)"
  from this res obtain s where
    s: "py_sorted (\<lambda>r. get_default (format_results rs h r) ''work_management_total'' (PInt 0)) True rs = Inr s"
    and ranks: "assign_ranks (format_results rs h) 0 s Map.empty = Inr (district_ranks out)"
    by (rule process_state_work_data_Some)
  from distinct_keys_sorted [OF dist py_sorted_mset [OF s]] assign_ranks_permutation [OF ranks]
  show "ranks_permutation (district_ranks out) (length rs)" by simp
next
  fix out
  assume "fst (process_state_zero_muster_data h (Some d)) = Inr (Some out)"
  from this res obtain s where
    s: "py_sorted (\<lambda>r. get_default (format_results rs h r) ''zero_attendance_percentage'' (PInt 100)) False rs = Inr s"
    and ranks: "assign_ranks (format_results rs h) 0 s Map.empty = Inr (district_ranks out)"
    by (rule process_state_zero_muster_data_Some)
  from distinct_keys_sorted [OF dist py_sorted_mset [OF s]] assign_ranks_permutation [OF ranks]
  show "ranks_permutation (district_ranks out) (length rs)" by simp
qed

lemma scenario_inspection_returns:
  "\<not> Option.is_none (returned (process_state_inspection_data scenario_heap (Some (results_payload [0, 1, 2]))))"
  by code_simp

lemma scenario_names_distinct:
  "distinct (map (\<lambda>r. entity_key (format_dict (scenario_heap r))) [0, 1, 2])"
  by code_simp

lemma returned_Some: "\<not> Option.is_none (returned oc) \<Longrightarrow> \<exists>out. fst oc = Inr (Some out) \<and> returned oc = Some out"
  by (auto simp: returned_def Option.is_none_def split: sum.splits option.splits)

theorem ranks_permutation_distinct_names_witness:
  "map_option (\<lambda>out. ranks_permutation (district_ranks out) 3)
     (returned (process_state_inspection_data scenario_heap (Some (results_payload [0, 1, 2]))))
   = Some True"
proof -
  obtain out where
    out: "fst (process_state_inspection_data scenario_heap (Some (results_payload [0, 1, 2]))) = Inr (Some out)"
      "returned (process_state_inspection_data scenario_heap (Some (results_payload [0, 1, 2]))) = Some out"
    using returned_Some [OF scenario_inspection_returns] by blast
  have "results (results_payload [0, 1, 2]) = Some [0, 1, 2]"
    by (simp add: results_payload_def)
  from ranks_permutation_distinct_names [OF this scenario_names_distinct] out(1)
  have "ranks_permutation (district_ranks out) 3" by (simp add: numeral_3_eq_3)
  with out(2) show ?thesis by simp
qed

section \<open>The record of rank 1\<close>
















lemma same_name_top_rank:
  "map_option (\<lambda>out. (top_district out,
        district_ranks out (entity_key (format_dict (same_name_heap 0))),
        district_ranks out (entity_key (format_dict (same_name_heap 1)))))
     (returned (process_state_work_data same_name_heap (Some (results_payload [0, 1]))))
   = Some (0, Some 2, Some 2)"
  by code_simp

lemma same_name_metrics:
  "metric ''work_management_total'' 0 (format_dict (same_name_heap 1))
   < metric ''work_management_total'' 0 (format_dict (same_name_heap 0))"
  by code_simp

text \<open>
  Claim C3, as stated, fails: the ranks are keyed by \<open>group_name\<close>. For two districts both
  named A with totals 5 and 3 the work-management aggregator returns the first as
  \<open>top_district\<close>, with the maximum, but the rank stored for it and for the other record is
  2: no record is assigned rank 1.
\<close>

theorem rank_one_same_name_counterexample:
  "map_option (\<lambda>out. (top_district out,
        district_ranks out (entity_key (format_dict (same_name_heap 0))),
        district_ranks out (entity_key (format_dict (same_name_heap 1)))))
     (returned (process_state_work_data same_name_heap (Some (results_payload [0, 1]))))
   = Some (0, Some 2, Some 2)
 \<and> metric ''work_management_total'' 0 (format_dict (same_name_heap 1))
   < metric ''work_management_total'' 0 (format_dict (same_name_heap 0))"
  using same_name_top_rank same_name_metrics by simp









section \<open>Averages\<close>

lemma round2_error: "\<bar>round2 q - q\<bar> \<le> 1 / 200"
proof -
  have "round2 q - q = (of_int (round_half_even (q * 100)) - q * 100) / 100"
    by (simp add: round2_def diff_divide_distrib)
  then have "\<bar>round2 q - q\<bar> = \<bar>of_int (round_half_even (q * 100)) - q * 100\<bar> / \<bar>100\<bar>"
    by (simp only: abs_divide)
  also have "\<dots> = \<bar>of_int (round_half_even (q * 100)) - q * 100\<bar> / 100"
    by simp
  also have "\<dots> \<le> (1 / 2) / 100"
    using round_half_even_error [of "q * 100"] by (intro divide_right_mono) simp_all
  finally show ?thesis by simp
qed

lemma round2_hundredths: "of_int \<lfloor>round2 q * 100\<rfloor> = round2 q * 100"
  by (simp add: round2_def)

lemma rounded_2dp_whole: "rounded_2dp (of_int n) (of_int n)"
proof -
  have "(of_int n :: rat) * 100 = of_int (n * 100)" by simp
  then have "of_int \<lfloor>(of_int n :: rat) * 100\<rfloor> = (of_int n :: rat) * 100"
    by (simp only: floor_of_int)
  then show ?thesis
    by (simp add: rounded_2dp_def)
qed

lemma rounded_2dp_double: "rounded_2dp (round2 (to_double m)) m"
proof -
  have "\<bar>round2 (to_double m) - m\<bar>
      \<le> \<bar>round2 (to_double m) - to_double m\<bar> + \<bar>to_double m - m\<bar>"
    by simp
  also have "\<dots> \<le> 1 / 200 + (\<bar>m\<bar> * pow2 (- 53) + pow2 (- 1075))"
    by (intro add_mono round2_error to_double_error)
  finally show ?thesis
    by (simp add: rounded_2dp_def round2_hundredths)
qed

lemma avg_field_mean:
  assumes "avg_field h rs f = Inr a"
  shows "is_num a \<and> rounded_2dp (num_key a) (field_mean h rs f)"
proof -
  define q where "q = field_mean h rs f"
  have q: "sum_list (map float_value (map (\<lambda>r. get_default (h r) f (PInt 0)) rs))
      / of_nat (length (map (\<lambda>r. get_default (h r) f (PInt 0)) rs)) = q"
    by (simp add: q_def field_mean_def comp_def)
  from assms obtain m where m: "statistics_mean (map (\<lambda>r. get_default (h r) f (PInt 0)) rs) = Inr m"
    and a: "py_round2 m = Inr a"
    by (auto simp: avg_field_def bindE_eq_Inr)
  from m have "m = PInt \<lfloor>q\<rfloor> \<and> of_int \<lfloor>q\<rfloor> = q \<or> m = PFloat (to_double q)"
    unfolding statistics_mean_def q Let_def by (auto split: if_splits)
  then show ?thesis
  proof
    assume "m = PInt \<lfloor>q\<rfloor> \<and> of_int \<lfloor>q\<rfloor> = q"
    then have av: "a = PInt \<lfloor>q\<rfloor>" and whole: "of_int \<lfloor>q\<rfloor> = q"
      using a by auto
    from rounded_2dp_whole [of "\<lfloor>q\<rfloor>"] have "rounded_2dp q q"
      by (simp only: whole)
    then have "rounded_2dp (num_key a) q"
      by (simp add: av num_key_def whole)
    then show ?thesis
      by (simp add: av is_num_def q_def [symmetric])
  next
    assume "m = PFloat (to_double q)"
    with a have "a = PFloat (round2 (to_double q))" by auto
    with rounded_2dp_double [of q] show ?thesis
      by (simp add: is_num_def num_key_def q_def [symmetric])
  qed
qed

lemma small_marks_average:
  "map_option (\<lambda>out. map_of (state_averages out) ''zero_muster_marks'')
     (returned (process_state_zero_muster_data small_marks_heap (Some (results_payload [0, 1, 2]))))
   = Some (Some (PFloat (1 / 100)))"
  by code_simp

lemma small_marks_input_mean:
  "\<not> rounded_2dp (1 / 100) (field_mean small_marks_heap [0, 1, 2] ''zero_muster_marks'')"
  by code_simp

text \<open>
  Claim C6, as stated, fails: the floats of every record are rounded to 2 decimals before
  the mean is taken, so the average is the rounded mean of rounded values. For the marks
  0.006, 0.006 and 0.0 the zero-muster aggregator reports 0.01 (the mean of 0.01, 0.01 and
  0.0 is 0.0067), which is 0.006 away from the mean of the input, 0.004, and so is not
  that mean rounded to 2 decimals under any rule for ties.
\<close>

theorem average_of_input_counterexample:
  "map_option (\<lambda>out. map_of (state_averages out) ''zero_muster_marks'')
     (returned (process_state_zero_muster_data small_marks_heap (Some (results_payload [0, 1, 2]))))
   = Some (Some (PFloat (1 / 100)))
 \<and> \<not> rounded_2dp (1 / 100) (field_mean small_marks_heap [0, 1, 2] ''zero_muster_marks'')"
  using small_marks_average small_marks_input_mean by simp

lemma averages_state_inspection:
  assumes "fst (process_state_inspection_data h (Some d)) = Inr (Some out)" and "results d = Some rs"
  shows "average_entry (state_averages out) ''dpc_ws_visited''
           (field_mean (format_results rs h) rs ''dpc_ws_visited'')
       \<and> average_entry (state_averages out) ''adpc_ws_visited''
           (field_mean (format_results rs h) rs ''adpc_ws_visited'')
       \<and> average_entry (state_averages out) ''dpc_marks''
           (field_mean (format_results rs h) rs ''dpc_marks'')
       \<and> average_entry (state_averages out) ''adpc_marks''
           (field_mean (format_results rs h) rs ''adpc_marks'')
       \<and> average_entry (state_averages out) ''total_marks''
           (field_mean (format_results rs h) rs ''total_visit_marks'')"
proof -
  from assms obtain s0 s a1 a2 a3 a4 a5 where
    "avg_field (format_results rs h) rs ''dpc_ws_visited'' = Inr a1"
    "avg_field (format_results rs h) rs ''adpc_ws_visited'' = Inr a2"
    "avg_field (format_results rs h) rs ''dpc_marks'' = Inr a3"
    "avg_field (format_results rs h) rs ''adpc_marks'' = Inr a4"
    "avg_field (format_results rs h) rs ''total_visit_marks'' = Inr a5"
    "state_averages out = [(''dpc_ws_visited'', a1), (''adpc_ws_visited'', a2),
       (''dpc_marks'', a3), (''adpc_marks'', a4), (''total_marks'', a5)]"
    by (rule process_state_inspection_data_Some)
  then show ?thesis
    by (simp add: average_entry_def avg_field_mean)
qed

lemma averages_state_work:
  assumes "fst (process_state_work_data h (Some d)) = Inr (Some out)" and "results d = Some rs"
  shows "average_entry (state_averages out) ''prev_completion''
           (field_mean (format_results rs h) rs ''prev_completion'')
       \<and> average_entry (state_averages out) ''curr_completion''
           (field_mean (format_results rs h) rs ''curr_completion'')
       \<and> average_entry (state_averages out) ''marks_prev''
           (field_mean (format_results rs h) rs ''marks_prev'')
       \<and> average_entry (state_averages out) ''marks_curr''
           (field_mean (format_results rs h) rs ''marks_curr'')
       \<and> average_entry (state_averages out) ''total_marks''
           (field_mean (format_results rs h) rs ''work_management_total'')"
proof -
  from assms obtain s a1 a2 a3 a4 a5 p c where
    "avg_field (format_results rs h) rs ''prev_completion'' = Inr a1"
    "avg_field (format_results rs h) rs ''curr_completion'' = Inr a2"
    "avg_field (format_results rs h) rs ''marks_prev'' = Inr a3"
    "avg_field (format_results rs h) rs ''marks_curr'' = Inr a4"
    "avg_field (format_results rs h) rs ''work_management_total'' = Inr a5"
    "state_averages out = [(''prev_completion'', a1), (''curr_completion'', a2),
       (''marks_prev'', a3), (''marks_curr'', a4), (''total_marks'', a5),
       (''state_avg_prev'', p), (''state_avg_curr'', c)]"
    by (rule process_state_work_data_Some)
  then show ?thesis
    by (simp add: average_entry_def avg_field_mean)
qed

lemma averages_state_zero_muster:
  assumes "fst (process_state_zero_muster_data h (Some d)) = Inr (Some out)" and "results d = Some rs"
  shows "average_entry (state_averages out) ''total_muster_issued''
           (field_mean (format_results rs h) rs ''total_muster_issued'')
       \<and> average_entry (state_averages out) ''total_zero_attendance''
           (field_mean (format_results rs h) rs ''total_zero_attendance'')
       \<and> average_entry (state_averages out) ''zero_attendance_percentage''
           (field_mean (format_results rs h) rs ''zero_attendance_percentage'')
       \<and> average_entry (state_averages out) ''zero_muster_marks''
           (field_mean (format_results rs h) rs ''zero_muster_marks'')"
proof -
  from assms obtain s a1 a2 a3 a4 where
    "avg_field (format_results rs h) rs ''total_muster_issued'' = Inr a1"
    "avg_field (format_results rs h) rs ''total_zero_attendance'' = Inr a2"
    "avg_field (format_results rs h) rs ''zero_attendance_percentage'' = Inr a3"
    "avg_field (format_results rs h) rs ''zero_muster_marks'' = Inr a4"
    "state_averages out = [(''total_muster_issued'', a1), (''total_zero_attendance'', a2),
       (''zero_attendance_percentage'', a3), (''zero_muster_marks'', a4)]"
    by (rule process_state_zero_muster_data_Some)
  then show ?thesis
    by (simp add: average_entry_def avg_field_mean)
qed

lemma averages_district_inspection:
  assumes "fst (process_district_inspection_data h (Some d)) = Inr (Some out)" and "results d = Some rs"
  shows "average_entry (district_summary out) ''average_dpc_ws_visited''
           (field_mean (format_results rs h) rs ''dpc_ws_visited'')
       \<and> average_entry (district_summary out) ''average_adpc_ws_visited''
           (field_mean (format_results rs h) rs ''adpc_ws_visited'')
       \<and> average_entry (district_summary out) ''average_dpc_marks''
           (field_mean (format_results rs h) rs ''dpc_marks'')
       \<and> average_entry (district_summary out) ''average_adpc_marks''
           (field_mean (format_results rs h) rs ''adpc_marks'')
       \<and> average_entry (district_summary out) ''average_total_marks''
           (field_mean (format_results rs h) rs ''total_visit_marks'')"
proof -
  from assms obtain s0 a1 a2 a3 a4 a5 where
    "avg_field (format_results rs h) rs ''dpc_ws_visited'' = Inr a1"
    "avg_field (format_results rs h) rs ''adpc_ws_visited'' = Inr a2"
    "avg_field (format_results rs h) rs ''dpc_marks'' = Inr a3"
    "avg_field (format_results rs h) rs ''adpc_marks'' = Inr a4"
    "avg_field (format_results rs h) rs ''total_visit_marks'' = Inr a5"
    "map_of (district_summary out) ''average_dpc_ws_visited'' = Some a1"
    "map_of (district_summary out) ''average_adpc_ws_visited'' = Some a2"
    "map_of (district_summary out) ''average_dpc_marks'' = Some a3"
    "map_of (district_summary out) ''average_adpc_marks'' = Some a4"
    "map_of (district_summary out) ''average_total_marks'' = Some a5"
    by (rule process_district_inspection_data_Some)
  then show ?thesis
    by (simp add: average_entry_def avg_field_mean)
qed

lemma averages_district_work:
  assumes "fst (process_district_work_data h (Some d)) = Inr (Some out)" and "results d = Some rs"
  shows "average_entry (district_summary out) ''average_prev_completion''
           (field_mean (format_results rs h) rs ''prev_completion'')
       \<and> average_entry (district_summary out) ''average_curr_completion''
           (field_mean (format_results rs h) rs ''curr_completion'')
       \<and> average_entry (district_summary out) ''average_marks_prev''
           (field_mean (format_results rs h) rs ''marks_prev'')
       \<and> average_entry (district_summary out) ''average_marks_curr''
           (field_mean (format_results rs h) rs ''marks_curr'')
       \<and> average_entry (district_summary out) ''average_total_marks''
           (field_mean (format_results rs h) rs ''work_management_total'')"
proof -
  from assms obtain a1 a2 a3 a4 a5 where
    "avg_field (format_results rs h) rs ''prev_completion'' = Inr a1"
    "avg_field (format_results rs h) rs ''curr_completion'' = Inr a2"
    "avg_field (format_results rs h) rs ''marks_prev'' = Inr a3"
    "avg_field (format_results rs h) rs ''marks_curr'' = Inr a4"
    "avg_field (format_results rs h) rs ''work_management_total'' = Inr a5"
    "map_of (district_summary out) ''average_prev_completion'' = Some a1"
    "map_of (district_summary out) ''average_curr_completion'' = Some a2"
    "map_of (district_summary out) ''average_marks_prev'' = Some a3"
    "map_of (district_summary out) ''average_marks_curr'' = Some a4"
    "map_of (district_summary out) ''average_total_marks'' = Some a5"
    by (rule process_district_work_data_Some)
  then show ?thesis
    by (simp add: average_entry_def avg_field_mean)
qed

lemma averages_district_zero_muster:
  assumes "fst (process_district_zero_muster_data h (Some d)) = Inr (Some out)" and "results d = Some rs"
  shows "average_entry (district_summary out) ''average_total_muster_issued''
           (field_mean (format_results rs h) rs ''total_muster_issued'')
       \<and> average_entry (district_summary out) ''average_total_zero_attendance''
           (field_mean (format_results rs h) rs ''total_zero_attendance'')
       \<and> average_entry (district_summary out) ''average_zero_attendance_percentage''
           (field_mean (format_results rs h) rs ''zero_attendance_percentage'')
       \<and> average_entry (district_summary out) ''average_zero_muster_marks''
           (field_mean (format_results rs h) rs ''zero_muster_marks'')"
proof -
  from assms obtain a1 a2 a3 a4 where
    "avg_field (format_results rs h) rs ''total_muster_issued'' = Inr a1"
    "avg_field (format_results rs h) rs ''total_zero_attendance'' = Inr a2"
    "avg_field (format_results rs h) rs ''zero_attendance_percentage'' = Inr a3"
    "avg_field (format_results rs h) rs ''zero_muster_marks'' = Inr a4"
    "map_of (district_summary out) ''average_total_muster_issued'' = Some a1"
    "map_of (district_summary out) ''average_total_zero_attendance'' = Some a2"
    "map_of (district_summary out) ''average_zero_attendance_percentage'' = Some a3"
    "map_of (district_summary out) ''average_zero_muster_marks'' = Some a4"
    by (rule process_district_zero_muster_data_Some)
  then show ?thesis
    by (simp add: average_entry_def avg_field_mean)
qed

text \<open>
  Claim C6, amended. Whenever a state or district aggregator returns a result for the
  collection \<open>rs\<close>, every average of its summary is the arithmetic mean of the
  corresponding field over the records as normalized, rounded to 2 decimals: a whole
  number of hundredths at most half a hundredth from that mean, up to the precision of
  the double the mean is computed in. Each float of a record is first rounded to 2
  decimals, and a record without the field counts as 0. A mean half way between two
  hundredths can go either way: it is rounded as the double nearest to it, so 0.025
  gives 0.03 and 0.015 gives 0.01. \<open>format_results rs h\<close> is the store with the normalized
  records, which is also the store the call leaves behind.
\<close>

theorem averages_of_normalized_records:
  assumes res: "results d = Some rs"
  shows "(\<forall>out. fst (process_state_inspection_data h (Some d)) = Inr (Some out) \<longrightarrow>
            averages_ok (state_averages out) state_inspection_averages (format_results rs h) rs)
       \<and> (\<forall>out. fst (process_state_work_data h (Some d)) = Inr (Some out) \<longrightarrow>
            averages_ok (state_averages out) state_work_averages (format_results rs h) rs)
       \<and> (\<forall>out. fst (process_state_zero_muster_data h (Some d)) = Inr (Some out) \<longrightarrow>
            averages_ok (state_averages out) state_zero_muster_averages (format_results rs h) rs)
       \<and> (\<forall>out. fst (process_district_inspection_data h (Some d)) = Inr (Some out) \<longrightarrow>
            averages_ok (district_summary out) district_inspection_averages (format_results rs h) rs)
       \<and> (\<forall>out. fst (process_district_work_data h (Some d)) = Inr (Some out) \<longrightarrow>
            averages_ok (district_summary out) district_work_averages (format_results rs h) rs)
       \<and> (\<forall>out. fst (process_district_zero_muster_data h (Some d)) = Inr (Some out) \<longrightarrow>
            averages_ok (district_summary out) district_zero_muster_averages (format_results rs h) rs)"
proof (intro conjI allI impI)
  fix out assume "fst (process_state_inspection_data h (Some d)) = Inr (Some out)"
  from averages_state_inspection [OF this res]
  show "averages_ok (state_averages out) state_inspection_averages (format_results rs h) rs"
    by (simp add: averages_ok_def state_inspection_averages_def)
next
  fix out assume "fst (process_state_work_data h (Some d)) = Inr (Some out)"
  from averages_state_work [OF this res]
  show "averages_ok (state_averages out) state_work_averages (format_results rs h) rs"
    by (simp add: averages_ok_def state_work_averages_def)
next
  fix out assume "fst (process_state_zero_muster_data h (Some d)) = Inr (Some out)"
  from averages_state_zero_muster [OF this res]
  show "averages_ok (state_averages out) state_zero_muster_averages (format_results rs h) rs"
    by (simp add: averages_ok_def state_zero_muster_averages_def)
next
  fix out assume "fst (process_district_inspection_data h (Some d)) = Inr (Some out)"
  from averages_district_inspection [OF this res]
  show "averages_ok (district_summary out) district_inspection_averages (format_results rs h) rs"
    by (simp add: averages_ok_def district_inspection_averages_def)
next
  fix out assume "fst (process_district_work_data h (Some d)) = Inr (Some out)"
  from averages_district_work [OF this res]
  show "averages_ok (district_summary out) district_work_averages (format_results rs h) rs"
    by (simp add: averages_ok_def district_work_averages_def)
next
  fix out assume "fst (process_district_zero_muster_data h (Some d)) = Inr (Some out)"
  from averages_district_zero_muster [OF this res]
  show "averages_ok (district_summary out) district_zero_muster_averages (format_results rs h) rs"
    by (simp add: averages_ok_def district_zero_muster_averages_def)
qed

lemma all_fields_returns:
  "\<not> Option.is_none (returned (process_state_inspection_data all_fields_heap (Some (results_payload [0, 1, 2]))))"
  "\<not> Option.is_none (returned (process_state_work_data all_fields_heap (Some (results_payload [0, 1, 2]))))"
  "\<not> Option.is_none (returned (process_state_zero_muster_data all_fields_heap (Some (results_payload [0, 1, 2]))))"
  "\<not> Option.is_none (returned (process_district_inspection_data all_fields_heap (Some (results_payload [0, 1, 2]))))"
  "\<not> Option.is_none (returned (process_district_work_data all_fields_heap (Some (results_payload [0, 1, 2]))))"
  "\<not> Option.is_none (returned (process_district_zero_muster_data all_fields_heap (Some (results_payload [0, 1, 2]))))"
  by code_simp+

theorem averages_of_normalized_records_witness:
  "map_option (\<lambda>out. averages_ok (state_averages out) state_inspection_averages
       (format_results [0, 1, 2] all_fields_heap) [0, 1, 2])
     (returned (process_state_inspection_data all_fields_heap (Some (results_payload [0, 1, 2]))))
   = Some True
 \<and> map_option (\<lambda>out. averages_ok (state_averages out) state_work_averages
       (format_results [0, 1, 2] all_fields_heap) [0, 1, 2])
     (returned (process_state_work_data all_fields_heap (Some (results_payload [0, 1, 2]))))
   = Some True
 \<and> map_option (\<lambda>out. averages_ok (state_averages out) state_zero_muster_averages
       (format_results [0, 1, 2] all_fields_heap) [0, 1, 2])
     (returned (process_state_zero_muster_data all_fields_heap (Some (results_payload [0, 1, 2]))))
   = Some True
 \<and> map_option (\<lambda>out. averages_ok (district_summary out) district_inspection_averages
       (format_results [0, 1, 2] all_fields_heap) [0, 1, 2])
     (returned (process_district_inspection_data all_fields_heap (Some (results_payload [0, 1, 2]))))
   = Some True
 \<and> map_option (\<lambda>out. averages_ok (district_summary out) district_work_averages
       (format_results [0, 1, 2] all_fields_heap) [0, 1, 2])
     (returned (process_district_work_data all_fields_heap (Some (results_payload [0, 1, 2]))))
   = Some True
 \<and> map_option (\<lambda>out. averages_ok (district_summary out) district_zero_muster_averages
       (format_results [0, 1, 2] all_fields_heap) [0, 1, 2])
     (returned (process_district_zero_muster_data all_fields_heap (Some (results_payload [0, 1, 2]))))
   = Some True"
proof -
  have res: "results (results_payload [0, 1, 2]) = Some [0, 1, 2]"
    by (simp add: results_payload_def)
  note inst = averages_of_normalized_records [OF res, of all_fields_heap]
  obtain o1 o2 o3 o4 o5 o6 where out:
    "fst (process_state_inspection_data all_fields_heap (Some (results_payload [0, 1, 2]))) = Inr (Some o1)"
    "returned (process_state_inspection_data all_fields_heap (Some (results_payload [0, 1, 2]))) = Some o1"
    "fst (process_state_work_data all_fields_heap (Some (results_payload [0, 1, 2]))) = Inr (Some o2)"
    "returned (process_state_work_data all_fields_heap (Some (results_payload [0, 1, 2]))) = Some o2"
    "fst (process_state_zero_muster_data all_fields_heap (Some (results_payload [0, 1, 2]))) = Inr (Some o3)"
    "returned (process_state_zero_muster_data all_fields_heap (Some (results_payload [0, 1, 2]))) = Some o3"
    "fst (process_district_inspection_data all_fields_heap (Some (results_payload [0, 1, 2]))) = Inr (Some o4)"
    "returned (process_district_inspection_data all_fields_heap (Some (results_payload [0, 1, 2]))) = Some o4"
    "fst (process_district_work_data all_fields_heap (Some (results_payload [0, 1, 2]))) = Inr (Some o5)"
    "returned (process_district_work_data all_fields_heap (Some (results_payload [0, 1, 2]))) = Some o5"
    "fst (process_district_zero_muster_data all_fields_heap (Some (results_payload [0, 1, 2]))) = Inr (Some o6)"
    "returned (process_district_zero_muster_data all_fields_heap (Some (results_payload [0, 1, 2]))) = Some o6"
    using returned_Some [OF all_fields_returns(1)] returned_Some [OF all_fields_returns(2)]
      returned_Some [OF all_fields_returns(3)] returned_Some [OF all_fields_returns(4)]
      returned_Some [OF all_fields_returns(5)] returned_Some [OF all_fields_returns(6)]
    by blast
  from inst out show ?thesis by simp
qed

section \<open>The tie-break pass\<close>











lemma length_bubble [simp]: "length (bubble sw xs) = length xs"
  by (induction sw xs rule: bubble.induct) auto

lemma inspection_ok_format [simp]: "inspection_ok (format_dict d) = inspection_ok d"
  by (simp add: inspection_ok_def visits_ok_def)





lemma three_tied_equal_marks:
  "primary (three_tied_heap 0) = primary (three_tied_heap 1)
 \<and> primary (three_tied_heap 1) = primary (three_tied_heap 2)"
  by code_simp






end
